theory Spec2Isabelle
  imports Complex_Main "HOL-Library.Word"
begin

section \<open>Backend relay (backend/server.js)\<close>

subsection \<open>JavaScript values used by the handlers\<close>

text \<open>
  A template literal renders \<open>Date.now()\<close> (a non-negative integer number of
  milliseconds) in decimal; Solidity's \<open>Strings.toString\<close> does the same for an
  unsigned integer.
\<close>

definition digit_char :: "nat \<Rightarrow> char" where
  "digit_char d = ''0123456789'' ! d"

function toString_nat :: "nat \<Rightarrow> string" where
  "toString_nat n =
     (if n < 10 then [digit_char n]
      else toString_nat (n div 10) @ [digit_char (n mod 10)])"
  by pat_completeness auto
termination
  by (relation "measure (\<lambda>n. n)") auto

declare toString_nat.simps [simp del]

text \<open>\<open>String.prototype.includes\<close>: does \<open>t\<close> occur in \<open>s\<close> as a contiguous run.\<close>

fun str_includes :: "string \<Rightarrow> string \<Rightarrow> bool" where
  "str_includes [] t = (t = [])"
| "str_includes (c # cs) t = (take (length t) (c # cs) = t \<or> str_includes cs t)"

text \<open>
  A JavaScript \<open>Map\<close> keeps its entries in insertion order and holds each key once.
  \<open>Map.prototype.set\<close> replaces the value of a key that is present, where it stands,
  and appends a new key at the end.
\<close>

type_synonym ('k, 'v) js_map = "('k \<times> 'v) list"

primrec Map_set :: "'k \<Rightarrow> 'v \<Rightarrow> ('k, 'v) js_map \<Rightarrow> ('k, 'v) js_map" where
  "Map_set k v [] = [(k, v)]"
| "Map_set k v (e # es) = (if fst e = k then (k, v) # es else e # Map_set k v es)"

definition Map_get :: "('k, 'v) js_map \<Rightarrow> 'k \<Rightarrow> 'v option" where
  "Map_get m k = map_of m k"

subsection \<open>Provider table\<close>

text \<open>
  Each entry of \<open>PROVIDERS\<close> holds three values read from the environment; a variable
  that is not set is \<open>undefined\<close> (\<open>None\<close>).
\<close>

record provider_config =
  APP_ID :: "string option"
  APP_SECRET :: "string option"
  PROVIDER_ID :: "string option"

type_synonym environment = "string \<Rightarrow> provider_config"

definition provider_names :: "string list" where
  "provider_names = [''github'', ''gmail'', ''linkedin'', ''twitter'']"

text \<open>
  \<open>PROVIDERS\<close> is written as an object literal, so a property read \<open>PROVIDERS[p]\<close>
  that finds no own property continues on \<open>Object.prototype\<close>. The names below are the
  properties every plain object inherits; each of them reads as a function or an object,
  hence as a truthy value that has none of the three credential fields.
\<close>

definition object_prototype_names :: "string list" where
  "object_prototype_names =
     [''constructor'', ''__defineGetter__'', ''__defineSetter__'', ''hasOwnProperty'',
      ''__lookupGetter__'', ''__lookupSetter__'', ''isPrototypeOf'',
      ''propertyIsEnumerable'', ''toString'', ''valueOf'', ''__proto__'',
      ''toLocaleString'']"

datatype providers_entry = Own provider_config | Inherited | Undefined

definition PROVIDERS :: "environment \<Rightarrow> string \<Rightarrow> providers_entry" where
  "PROVIDERS env p =
     (if p \<in> set provider_names then Own (env p)
      else if p \<in> set object_prototype_names then Inherited
      else Undefined)"

fun truthy_entry :: "providers_entry \<Rightarrow> bool" where
  "truthy_entry (Own c) = True"
| "truthy_entry Inherited = True"
| "truthy_entry Undefined = False"

text \<open>The destructuring \<open>const { APP_ID, APP_SECRET, PROVIDER_ID } = PROVIDERS[provider]\<close>.\<close>

fun destructure :: "providers_entry \<Rightarrow> provider_config" where
  "destructure (Own c) = c"
| "destructure Inherited = \<lparr>APP_ID = None, APP_SECRET = None, PROVIDER_ID = None\<rparr>"
| "destructure Undefined = \<lparr>APP_ID = None, APP_SECRET = None, PROVIDER_ID = None\<rparr>"

text \<open>\<open>!X || X.includes('your_')\<close> for one credential; the empty string is falsy.\<close>

fun missing_or_placeholder :: "string option \<Rightarrow> bool" where
  "missing_or_placeholder None = True"
| "missing_or_placeholder (Some v) = (v = [] \<or> str_includes v ''your_'')"

subsection \<open>Session and proof stores\<close>

datatype status = Pending | Verified

record 'p session =
  s_provider :: string
  s_status :: status
  s_address :: "string option"
  s_createdAt :: nat
  s_proofKey :: "string option"
  s_proof :: "'p option"
  s_verifiedAt :: "nat option"

record 'p stored_proof =
  sp_provider :: string
  sp_proof :: 'p
  sp_timestamp :: nat
  sp_status :: status

record 'p store =
  verificationSessions :: "(string, 'p session) js_map"
  verificationProofs :: "(string, 'p stored_proof) js_map"

definition empty_store :: "'p store" where
  "empty_store = \<lparr>verificationSessions = [], verificationProofs = []\<rparr>"

subsection \<open>GET /generate-config\<close>

record config_reply =
  reclaimProofRequestConfig :: string
  requestUrl :: string
  sessionId :: string
  reply_provider :: string

datatype 'a response =
    Ok 'a
  | Invalid_provider
  | Provider_not_configured
  | Failed_to_generate_request_config
  | Invalid_proof
  | Failed_to_process_proof
  | Invalid_request_data
  | Failed_to_prepare_onchain_mint

text \<open>
  \<open>Invalid_provider\<close>, \<open>Invalid_proof\<close> and \<open>Invalid_request_data\<close> are the
  HTTP 400 replies, \<open>Provider_not_configured\<close>, \<open>Failed_to_generate_request_config\<close>,
  \<open>Failed_to_process_proof\<close> and \<open>Failed_to_prepare_onchain_mint\<close> the HTTP 500
  replies, \<open>Ok\<close> the HTTP 200 reply.

  The proof SDK is outside the program: \<open>sdk app_id app_secret provider_id callback\<close>
  stands for \<open>ReclaimProofRequest.init\<close>, \<open>setAppCallbackUrl\<close>, \<open>getRequestUrl\<close> and
  \<open>toJsonString\<close>; it yields the request URL and the configuration text, or \<open>None\<close>
  when one of the calls throws. \<open>Date.now()\<close> is read twice, for the identifier and for
  \<open>createdAt\<close>; the two readings are \<open>now_id\<close> and \<open>now_created\<close>. The query
  parameters are strings or absent.
\<close>

type_synonym reclaim_sdk = "string \<Rightarrow> string \<Rightarrow> string \<Rightarrow> string \<Rightarrow> (string \<times> string) option"

definition new_session :: "string \<Rightarrow> string option \<Rightarrow> nat \<Rightarrow> 'p session" where
  "new_session p addr t =
     \<lparr>s_provider = p, s_status = Pending, s_address = addr, s_createdAt = t,
      s_proofKey = None, s_proof = None, s_verifiedAt = None\<rparr>"

definition generate_config ::
  "environment \<Rightarrow> string \<Rightarrow> reclaim_sdk \<Rightarrow> nat \<Rightarrow> nat \<Rightarrow> string option \<Rightarrow> string option \<Rightarrow>
   'p store \<Rightarrow> config_reply response \<times> 'p store" where
  "generate_config env BASE_URL sdk now_id now_created q_provider q_address st =
     (case q_provider of
        None \<Rightarrow> (Invalid_provider, st)
      | Some p \<Rightarrow>
          if p = [] \<or> \<not> truthy_entry (PROVIDERS env p) then (Invalid_provider, st)
          else
            let c = destructure (PROVIDERS env p) in
            if missing_or_placeholder (APP_ID c) \<or> missing_or_placeholder (APP_SECRET c)
               \<or> missing_or_placeholder (PROVIDER_ID c)
            then (Provider_not_configured, st)
            else
              (case sdk (the (APP_ID c)) (the (APP_SECRET c)) (the (PROVIDER_ID c))
                        (BASE_URL @ ''/receive-proofs/'' @ p) of
                 None \<Rightarrow> (Failed_to_generate_request_config, st)
               | Some (url, cfg) \<Rightarrow>
                   let sid = p @ ''-'' @ toString_nat now_id in
                   (Ok \<lparr>reclaimProofRequestConfig = cfg, requestUrl = url,
                        sessionId = sid, reply_provider = p\<rparr>,
                    st\<lparr>verificationSessions :=
                         Map_set sid (new_session p q_address now_created)
                           (verificationSessions st)\<rparr>)))"

subsection \<open>POST /receive-proofs/:provider\<close>

text \<open>
  \<open>decode\<close> stands for \<open>JSON.parse(decodeURIComponent(body))\<close> and is \<open>None\<close> when
  either throws. \<open>verifyProof\<close> is the SDK's verification: \<open>Some True\<close> and
  \<open>Some False\<close> are its two answers, \<open>None\<close> is a thrown error. A proof is a JSON
  object whose content the handler never reads (type \<open>'p\<close>). \<open>Date.now()\<close> is read
  three times: for the proof key, for the stored timestamp and for \<open>verifiedAt\<close>.
\<close>

text \<open>
  The loop over \<open>verificationSessions.entries()\<close> stops, with \<open>break\<close>, at the first
  entry in iteration order whose provider matches and whose status is pending.
\<close>

fun first_pending :: "string \<Rightarrow> (string, 'p session) js_map \<Rightarrow> (string \<times> 'p session) option" where
  "first_pending p [] = None"
| "first_pending p ((sid, s) # es) =
     (if s_provider s = p \<and> s_status s = Pending then Some (sid, s)
      else first_pending p es)"

definition receive_proofs ::
  "environment \<Rightarrow> (string \<Rightarrow> 'p option) \<Rightarrow> ('p \<Rightarrow> bool option) \<Rightarrow> nat \<Rightarrow> nat \<Rightarrow> nat \<Rightarrow>
   string \<Rightarrow> string \<Rightarrow> 'p store \<Rightarrow> unit response \<times> 'p store" where
  "receive_proofs env decode verifyProof now_key now_stored now_verified provider body st =
     (if \<not> truthy_entry (PROVIDERS env provider) then (Invalid_provider, st)
      else
        (case decode body of
           None \<Rightarrow> (Failed_to_process_proof, st)
         | Some prf \<Rightarrow>
             (case verifyProof prf of
                None \<Rightarrow> (Failed_to_process_proof, st)
              | Some False \<Rightarrow> (Invalid_proof, st)
              | Some True \<Rightarrow>
                  let proofKey = provider @ ''-'' @ toString_nat now_key;
                      st1 = st\<lparr>verificationProofs :=
                               Map_set proofKey
                                 \<lparr>sp_provider = provider, sp_proof = prf,
                                  sp_timestamp = now_stored, sp_status = Verified\<rparr>
                                 (verificationProofs st)\<rparr>
                  in
                  (case first_pending provider (verificationSessions st1) of
                     None \<Rightarrow> (Ok (), st1)
                   | Some (sid, s) \<Rightarrow>
                       (Ok (),
                        st1\<lparr>verificationSessions :=
                              Map_set sid
                                (s\<lparr>s_status := Verified, s_proofKey := Some proofKey,
                                   s_proof := Some prf, s_verifiedAt := Some now_verified\<rparr>)
                                (verificationSessions st1)\<rparr>)))))"

subsection \<open>GET /verification-status\<close>

text \<open>
  The loop keeps the entry seen so far (\<open>latestSession\<close>, \<open>latestSessionId\<close>) and
  replaces it when there is none yet or when the entry at hand has a strictly larger
  \<open>createdAt\<close>. The query parameter is a string or absent.
\<close>

fun latest_session ::
  "string option \<Rightarrow> (string, 'p session) js_map \<Rightarrow> (string \<times> 'p session) option \<Rightarrow>
   (string \<times> 'p session) option" where
  "latest_session q [] latest = latest"
| "latest_session q ((sid, s) # es) latest =
     latest_session q es
       (if Some (s_provider s) = q
        then (case latest of
                None \<Rightarrow> Some (sid, s)
              | Some (lid, l) \<Rightarrow> if s_createdAt s > s_createdAt l then Some (sid, s) else latest)
        else latest)"

datatype 'p status_reply =
    Not_found
  | Session_status status string "'p option" string

text \<open>
  \<open>Session_status st sid prf p\<close> is the reply
  \<open>{status: st, sessionId: sid, proof: prf, provider: p}\<close>, with \<open>None\<close> for \<open>null\<close>.
\<close>

definition verification_status :: "string option \<Rightarrow> 'p store \<Rightarrow> 'p status_reply" where
  "verification_status q st =
     (case latest_session q (verificationSessions st) None of
        None \<Rightarrow> Not_found
      | Some (sid, s) \<Rightarrow> Session_status (s_status s) sid (s_proof s) (s_provider s))"

subsection \<open>POST /prepare-onchain-mint\<close>

text \<open>
  The request body is the value that \<open>JSON.parse\<close> made of the request text. \<open>JObj\<close>
  holds the members of an object as the text lists them, in order and with repeated
  keys. \<open>JNum\<close> holds the real value of the double that the parser produced, so a
  fraction has its value and a long integer is the double it was rounded to. Text is
  taken as ASCII, one character per code unit.
\<close>

datatype json =
    JNull
  | JBool bool
  | JNum real
  | JStr string
  | JArr "json list"
  | JObj "(string \<times> json) list"

text \<open>
  The own properties of a parsed object: each member sets its key, so a repeated key
  keeps the place of its first occurrence and the value of its last.
\<close>

definition own_properties :: "(string \<times> json) list \<Rightarrow> (string, json) js_map" where
  "own_properties members = foldl (\<lambda>obj (k, v). Map_set k v obj) [] members"

text \<open>
  A key is an array index when it is the decimal text, without leading zeros, of an
  integer below \<open>2^32 - 1\<close>. An object enumerates its array-index keys first, in
  ascending numeric order, and then its other keys in the order of their creation.
\<close>

definition is_digit :: "char \<Rightarrow> bool" where
  "is_digit c = (c \<in> set ''0123456789'')"

definition digits_value :: "string \<Rightarrow> nat" where
  "digits_value k = foldl (\<lambda>a c. 10 * a + (of_char c - 48)) 0 k"

definition array_index :: "string \<Rightarrow> nat option" where
  "array_index k =
     (if k \<noteq> [] \<and> list_all is_digit k \<and> toString_nat (digits_value k) = k
         \<and> digits_value k < 2 ^ 32 - 1
      then Some (digits_value k) else None)"

definition enumeration_order :: "(string, json) js_map \<Rightarrow> (string, json) js_map" where
  "enumeration_order obj =
     sort_key (\<lambda>(k, v). the (array_index k)) (filter (\<lambda>(k, v). array_index k \<noteq> None) obj)
     @ filter (\<lambda>(k, v). array_index k = None) obj"

text \<open>Truthiness; a property read that finds nothing is \<open>undefined\<close> (\<open>None\<close>).\<close>

fun truthy :: "json option \<Rightarrow> bool" where
  "truthy None = False"
| "truthy (Some JNull) = False"
| "truthy (Some (JBool b)) = b"
| "truthy (Some (JNum n)) = (n \<noteq> 0)"
| "truthy (Some (JStr s)) = (s \<noteq> [])"
| "truthy (Some (JArr xs)) = True"
| "truthy (Some (JObj fs)) = True"

text \<open>The negation \<open>!a\<close>.\<close>

definition falsy :: "json option \<Rightarrow> bool" where
  "falsy a = (\<not> truthy a)"

text \<open>\<open>a || b\<close> with a defined right operand; \<open>b\<close> is taken when \<open>a\<close> is falsy.\<close>

definition or_else :: "json option \<Rightarrow> json \<Rightarrow> json" where
  "or_else a b = (if truthy a then the a else b)"

text \<open>
  A property read \<open>v.k\<close> for the field names the handler uses, none of which is a
  built-in property of a string, number, boolean or array. The outer \<open>None\<close> is the
  TypeError that reading a property of \<open>null\<close> throws.
\<close>

fun read_prop :: "json \<Rightarrow> string \<Rightarrow> json option option" where
  "read_prop JNull k = None"
| "read_prop (JObj members) k = Some (Map_get (own_properties members) k)"
| "read_prop v k = Some None"

text \<open>\<open>Object.values\<close> of a truthy JSON value.\<close>

fun Object_values :: "json \<Rightarrow> json list" where
  "Object_values (JObj members) = map snd (enumeration_order (own_properties members))"
| "Object_values (JArr xs) = xs"
| "Object_values (JStr s) = map (\<lambda>c. JStr [c]) s"
| "Object_values v = []"

record claim_info =
  ci_provider :: json
  ci_parameters :: json
  ci_context :: json

record claim =
  cl_identifier :: json
  cl_owner :: json
  cl_timestampS :: json
  cl_epoch :: json

record signed_claim =
  sc_claim :: claim
  sc_signatures :: json

record transformed_proof =
  claimInfo :: claim_info
  signedClaim :: signed_claim

definition zero_identifier :: string where
  "zero_identifier = ''0x'' @ replicate 64 (CHR ''0'')"

text \<open>
  The arrow function mapped over the raw proofs. It throws exactly when its argument
  is \<open>null\<close>. \<open>now\<close> is the reading of \<open>Date.now()\<close> that this one call takes, when
  the raw proof has no truthy \<open>timestampS\<close>; for a millisecond count the double
  division and \<open>Math.floor\<close> give the integer quotient.
\<close>

definition transform_proof :: "json \<Rightarrow> nat \<Rightarrow> json \<Rightarrow> transformed_proof option" where
  "transform_proof walletAddress now raw =
     (case read_prop raw ''provider'' of
        None \<Rightarrow> None
      | Some provider \<Rightarrow>
          Some
            \<lparr>claimInfo =
               \<lparr>ci_provider = or_else provider (JStr []),
                ci_parameters = or_else (the (read_prop raw ''parameters'')) (JStr []),
                ci_context = or_else (the (read_prop raw ''context'')) (JStr [])\<rparr>,
             signedClaim =
               \<lparr>sc_claim =
                  \<lparr>cl_identifier =
                     or_else (the (read_prop raw ''identifier'')) (JStr zero_identifier),
                   cl_owner = or_else (the (read_prop raw ''owner'')) walletAddress,
                   cl_timestampS =
                     or_else (the (read_prop raw ''timestampS'')) (JNum (real (now div 1000))),
                   cl_epoch = or_else (the (read_prop raw ''epoch'')) (JNum 1)\<rparr>,
                sc_signatures = or_else (the (read_prop raw ''signatures'')) (JArr [])\<rparr>\<rparr>)"

text \<open>
  \<open>Object.values(reclaimProofs).map(...)\<close>: entry \<open>i\<close> is transformed with its own
  clock reading \<open>clock i\<close>; the result is \<open>None\<close> when some call throws.
\<close>

definition transform_all ::
  "json \<Rightarrow> (nat \<Rightarrow> nat) \<Rightarrow> json list \<Rightarrow> transformed_proof list option" where
  "transform_all walletAddress clock raws =
     those (map (\<lambda>(i, raw). transform_proof walletAddress (clock i) raw) (enumerate 0 raws))"

text \<open>
  A value handed to \<open>res.json\<close> is a JSON value or, for the chain identifier, a
  BigInt: the handler is written against version 6 of the ethers interface
  (\<open>ethers.JsonRpcProvider\<close>, \<open>ethers.toUtf8Bytes\<close>), in which \<open>getNetwork()\<close>
  answers with a \<open>chainId\<close> of that type. \<open>res.json\<close> serialises with
  \<open>JSON.stringify\<close>, which throws a TypeError on a BigInt.
\<close>

datatype reply_value = JsonValue json | BigInt nat

fun serialisable :: "reply_value \<Rightarrow> bool" where
  "serialisable (JsonValue v) = True"
| "serialisable (BigInt n) = False"

record onchain_reply =
  transformedProofs :: "transformed_proof list"
  contractAddress :: "string option"
  abi :: "string list"
  reply_verifiedProviders :: json
  chainId :: reply_value

text \<open>
  \<open>getNetwork\<close> is the chain identifier that the RPC node reports, \<open>None\<close> when the
  call throws; \<open>NFT_CONTRACT_ADDRESS\<close> and \<open>NFT_CONTRACT_ABI\<close> are the two constants
  the reply carries along. The mapping, the network call and \<open>res.json\<close> all stand
  inside the \<open>try\<close> block, whose \<open>catch\<close> answers
  \<open>Failed to prepare on-chain mint\<close>.
\<close>

definition prepare_onchain_mint ::
  "string option \<Rightarrow> string list \<Rightarrow> nat option \<Rightarrow> (nat \<Rightarrow> nat) \<Rightarrow>
   json option \<Rightarrow> json option \<Rightarrow> json option \<Rightarrow> onchain_reply response" where
  "prepare_onchain_mint NFT_CONTRACT_ADDRESS NFT_CONTRACT_ABI getNetwork clock
       walletAddress reclaimProofs verifiedProviders =
     (if falsy walletAddress \<or> falsy reclaimProofs \<or> falsy verifiedProviders
      then Invalid_request_data
      else
        (case transform_all (the walletAddress) clock (Object_values (the reclaimProofs)) of
           None \<Rightarrow> Failed_to_prepare_onchain_mint
         | Some tps \<Rightarrow>
             (case getNetwork of
                None \<Rightarrow> Failed_to_prepare_onchain_mint
              | Some cid \<Rightarrow>
                  let reply =
                        \<lparr>transformedProofs = tps, contractAddress = NFT_CONTRACT_ADDRESS,
                         abi = NFT_CONTRACT_ABI,
                         reply_verifiedProviders = the verifiedProviders,
                         chainId = BigInt cid\<rparr>
                  in if serialisable (chainId reply) then Ok reply
                     else Failed_to_prepare_onchain_mint)))"

section \<open>Registry contract (SocialProofPass)\<close>

subsection \<open>Common types\<close>

type_synonym address = "160 word"
type_synonym uint256 = "256 word"
type_synonym uint8 = "8 word"
type_synonym bytes = "8 word list"

text \<open>
  A call either returns or reverts. \<open>Revert msg\<close> is a failed \<open>require\<close> with its
  message, \<open>OwnableUnauthorizedAccount\<close> the custom error of the \<open>onlyOwner\<close>
  modifier in the first contract, \<open>Reclaim_revert\<close> a revert inside the external
  verifier, \<open>Panic_out_of_bounds\<close> an array read past the end.
\<close>

datatype revert =
    Revert string
  | OwnableUnauthorizedAccount address
  | Reclaim_revert
  | Panic_out_of_bounds

text \<open>The events the contract's own code emits, in order.\<close>

datatype event =
    SocialProofPassMinted address uint256 "string list" uint256
  | ProofVerifiedOnChain address uint256 string uint256
  | ProofDataUpdated uint256 "string list" uint256

text \<open>
  A transaction that reverts leaves the storage as it was; one that returns commits
  the storage it computed.
\<close>

definition transact :: "('s \<Rightarrow> revert + 'a \<times> 's) \<Rightarrow> 's \<Rightarrow> (revert + 'a) \<times> 's" where
  "transact call s = (case call s of Inl e \<Rightarrow> (Inl e, s) | Inr (r, s') \<Rightarrow> (Inr r, s'))"

subsection \<open>The inherited token\<close>

record erc721 =
  owners :: "uint256 \<Rightarrow> address"
  balances :: "address \<Rightarrow> uint256"
  tokenURIs :: "uint256 \<Rightarrow> string"

definition exists_token :: "erc721 \<Rightarrow> uint256 \<Rightarrow> bool" where
  "exists_token tk tokenId = (owners tk tokenId \<noteq> 0)"

text \<open>
  Modelled from the spec: the imported ERC-721 base contract, whose \<open>_safeMint\<close> the
  mint entry points call, is not among the sources. The registry is a standard ERC-721
  extension and a mint to the zero address fails; a standard safe mint also fails for
  a token that exists and for a recipient contract that does not accept the token
  (\<open>accepts to\<close> tells whether \<open>to\<close> is an externally owned account or a contract
  whose receiver hook accepts); otherwise it records the owner and counts the token.
\<close>

definition safeMint :: "(address \<Rightarrow> bool) \<Rightarrow> address \<Rightarrow> uint256 \<Rightarrow> erc721 \<Rightarrow> revert + erc721" where
  "safeMint accepts to tokenId tk =
     (if to = 0 then Inl (Revert ''ERC721: mint to the zero address'')
      else if exists_token tk tokenId then Inl (Revert ''ERC721: token already minted'')
      else if \<not> accepts to
        then Inl (Revert ''ERC721: transfer to non ERC721Receiver implementer'')
      else Inr (tk\<lparr>owners := (owners tk)(tokenId := to),
                   balances := (balances tk)(to := balances tk to + 1)\<rparr>))"

text \<open>
  Modelled from the spec: \<open>_setTokenURI\<close> of the imported URI-storage extension, not
  among the sources; it stores the text for a token that exists.
\<close>

definition setTokenURI :: "uint256 \<Rightarrow> string \<Rightarrow> erc721 \<Rightarrow> revert + erc721" where
  "setTokenURI tokenId uri tk =
     (if \<not> exists_token tk tokenId
        then Inl (Revert ''ERC721URIStorage: URI set of nonexistent token'')
      else Inr (tk\<lparr>tokenURIs := (tokenURIs tk)(tokenId := uri)\<rparr>))"

subsection \<open>The contract with on-chain proof verification\<close>

record SocialProof =
  holder :: address
  verifiedProviders :: "string list"
  verificationCount :: uint8
  timestamp :: uint256
  verified :: bool

record contract =
  contract_owner :: address
  tokenIdCounter :: uint256
  reclaimAddress :: address
  socialProofs :: "uint256 \<Rightarrow> SocialProof"
  holderTokens :: "address \<Rightarrow> uint256 list"
  hasMinted :: "address \<Rightarrow> bool"
  supportedProviders :: "string \<Rightarrow> bool"
  token :: erc721
  events :: "event list"

text \<open>
  The constructor; unwritten storage reads as zero. The verifier's address is the
  Sepolia deployment, written out in the contract with stored token URIs and named
  \<open>Addresses.ETHEREUM_SEPOLIA\<close> in the other.
\<close>

definition deploy :: "address \<Rightarrow> contract" where
  "deploy deployer =
     \<lparr>contract_owner = deployer,
      tokenIdCounter = 0,
      reclaimAddress = 0xAe94FB09711e1c6B057853a515483792d8e474d0,
      socialProofs = (\<lambda>_. \<lparr>holder = 0, verifiedProviders = [], verificationCount = 0,
                             timestamp = 0, verified = False\<rparr>),
      holderTokens = (\<lambda>_. []),
      hasMinted = (\<lambda>_. False),
      supportedProviders =
        (\<lambda>p. p = ''github'' \<or> p = ''gmail'' \<or> p = ''linkedin'' \<or> p = ''twitter''),
      token = \<lparr>owners = (\<lambda>_. 0), balances = (\<lambda>_. 0), tokenURIs = (\<lambda>_. [])\<rparr>,
      events = []\<rparr>"

text \<open>
  The verification loop of \<open>mintWithProofVerification\<close> and
  \<open>addProvidersWithVerification\<close>: index \<open>i\<close> runs over \<open>proofs\<close> and reads
  \<open>providers[i]\<close>. \<open>valid prf\<close> tells whether the external verifier at
  \<open>reclaimAddress\<close> returns for \<open>prf\<close> (it reverts otherwise). The proof structure
  is passed through unread (type \<open>'proof\<close>).
\<close>

fun verify_loop ::
  "('proof \<Rightarrow> bool) \<Rightarrow> (string \<Rightarrow> bool) \<Rightarrow> address \<Rightarrow> uint256 \<Rightarrow> uint256 \<Rightarrow>
   'proof list \<Rightarrow> string list \<Rightarrow> event list \<Rightarrow> revert + event list" where
  "verify_loop valid supported sender tokenId now [] providers evs = Inr evs"
| "verify_loop valid supported sender tokenId now (prf # proofs) [] evs =
     Inl Panic_out_of_bounds"
| "verify_loop valid supported sender tokenId now (prf # proofs) (p # providers) evs =
     (if \<not> supported p then Inl (Revert ''Unsupported provider'')
      else if \<not> valid prf then Inl Reclaim_revert
      else verify_loop valid supported sender tokenId now proofs providers
             (evs @ [ProofVerifiedOnChain sender tokenId p now]))"

definition mintWithProofVerification ::
  "(address \<Rightarrow> bool) \<Rightarrow> (address \<Rightarrow> 'proof \<Rightarrow> bool) \<Rightarrow> address \<Rightarrow> uint256 \<Rightarrow>
   'proof list \<Rightarrow> string list \<Rightarrow> contract \<Rightarrow> revert + uint256 \<times> contract" where
  "mintWithProofVerification accepts reclaim msg_sender block_timestamp proofs providers s =
     (if \<not> length proofs > 0 then Inl (Revert ''At least one proof required'')
      else if length proofs \<noteq> length providers
        then Inl (Revert ''Proofs and providers length mismatch'')
      else if hasMinted s msg_sender then Inl (Revert ''Already minted'')
      else
        (case verify_loop (reclaim (reclaimAddress s)) (supportedProviders s) msg_sender
                (tokenIdCounter s) block_timestamp proofs providers (events s) of
           Inl e \<Rightarrow> Inl e
         | Inr evs \<Rightarrow>
             let tokenId = tokenIdCounter s in
             (case safeMint accepts msg_sender tokenId (token s) of
                Inl e \<Rightarrow> Inl e
              | Inr tk \<Rightarrow>
                  Inr (tokenId,
                       s\<lparr>tokenIdCounter := tokenId + 1,
                         token := tk,
                         socialProofs := (socialProofs s)(tokenId :=
                           \<lparr>holder = msg_sender, verifiedProviders = providers,
                            verificationCount = of_nat (length providers),
                            timestamp = block_timestamp, verified = True\<rparr>),
                         holderTokens := (holderTokens s)(msg_sender :=
                           holderTokens s msg_sender @ [tokenId]),
                         hasMinted := (hasMinted s)(msg_sender := True),
                         events := evs @
                           [SocialProofPassMinted msg_sender tokenId providers
                              block_timestamp]\<rparr>))))"

definition mintSocialProofPass ::
  "(address \<Rightarrow> bool) \<Rightarrow> address \<Rightarrow> uint256 \<Rightarrow> address \<Rightarrow> string list \<Rightarrow> bytes \<Rightarrow> contract \<Rightarrow>
   revert + uint256 \<times> contract" where
  "mintSocialProofPass accepts msg_sender block_timestamp to providers proofData s =
     (if msg_sender \<noteq> contract_owner s then Inl (Revert ''Ownable: caller is not the owner'')
      else if \<not> length providers > 0 then Inl (Revert ''At least one provider required'')
      else if hasMinted s to then Inl (Revert ''Already minted'')
      else
        let tokenId = tokenIdCounter s in
        (case safeMint accepts to tokenId (token s) of
           Inl e \<Rightarrow> Inl e
         | Inr tk \<Rightarrow>
             Inr (tokenId,
                  s\<lparr>tokenIdCounter := tokenId + 1,
                    token := tk,
                    socialProofs := (socialProofs s)(tokenId :=
                      \<lparr>holder = to, verifiedProviders = providers,
                       verificationCount = of_nat (length providers),
                       timestamp = block_timestamp, verified = True\<rparr>),
                    holderTokens := (holderTokens s)(to := holderTokens s to @ [tokenId]),
                    hasMinted := (hasMinted s)(to := True),
                    events := events s @
                      [SocialProofPassMinted to tokenId providers block_timestamp]\<rparr>)))"

text \<open>The second loop pushes \<open>newProviders\<close> one by one at the end of the stored list.\<close>

definition addProvidersWithVerification ::
  "(address \<Rightarrow> 'proof \<Rightarrow> bool) \<Rightarrow> address \<Rightarrow> uint256 \<Rightarrow> uint256 \<Rightarrow> 'proof list \<Rightarrow> string list \<Rightarrow>
   contract \<Rightarrow> revert + unit \<times> contract" where
  "addProvidersWithVerification reclaim msg_sender block_timestamp tokenId newProofs
       newProviders s =
     (if \<not> exists_token (token s) tokenId then Inl (Revert ''Token does not exist'')
      else if owners (token s) tokenId \<noteq> msg_sender then Inl (Revert ''Not token owner'')
      else if length newProofs \<noteq> length newProviders
        then Inl (Revert ''Arrays length mismatch'')
      else
        (case verify_loop (reclaim (reclaimAddress s)) (supportedProviders s) msg_sender
                tokenId block_timestamp newProofs newProviders (events s) of
           Inl e \<Rightarrow> Inl e
         | Inr evs \<Rightarrow>
             let proof = socialProofs s tokenId;
                 pushed = foldl (\<lambda>vs p. vs @ [p]) (verifiedProviders proof) newProviders
             in
             Inr ((),
                  s\<lparr>socialProofs := (socialProofs s)(tokenId :=
                      proof\<lparr>verifiedProviders := pushed,
                            verificationCount := of_nat (length pushed),
                            timestamp := block_timestamp\<rparr>),
                    events := evs @
                      [ProofDataUpdated tokenId newProviders block_timestamp]\<rparr>)))"

definition hasAlreadyMinted :: "contract \<Rightarrow> address \<Rightarrow> bool" where
  "hasAlreadyMinted s user = hasMinted s user"

subsection \<open>The contract with stored token URIs\<close>

text \<open>
  The third contract has the storage and the entry points of the second and, after
  each mint or append, stores a token URI. \<open>render tokenId proof\<close> stands for the
  text that \<open>generateTokenURI\<close> builds from the token identifier and the stored proof.
\<close>

definition generateTokenURI ::
  "(uint256 \<Rightarrow> SocialProof \<Rightarrow> string) \<Rightarrow> uint256 \<Rightarrow> contract \<Rightarrow> revert + string" where
  "generateTokenURI render tokenId s =
     (if \<not> exists_token (token s) tokenId then Inl (Revert ''Token does not exist'')
      else Inr (render tokenId (socialProofs s tokenId)))"

definition mintWithProofVerification_uri ::
  "(uint256 \<Rightarrow> SocialProof \<Rightarrow> string) \<Rightarrow> (address \<Rightarrow> bool) \<Rightarrow> (address \<Rightarrow> 'proof \<Rightarrow> bool) \<Rightarrow>
   address \<Rightarrow> uint256 \<Rightarrow> 'proof list \<Rightarrow> string list \<Rightarrow> contract \<Rightarrow> revert + uint256 \<times> contract" where
  "mintWithProofVerification_uri render accepts reclaim msg_sender block_timestamp proofs
       providers s =
     (if \<not> length proofs > 0 then Inl (Revert ''At least one proof required'')
      else if length proofs \<noteq> length providers
        then Inl (Revert ''Proofs and providers length mismatch'')
      else if hasMinted s msg_sender then Inl (Revert ''Already minted'')
      else
        (case verify_loop (reclaim (reclaimAddress s)) (supportedProviders s) msg_sender
                (tokenIdCounter s) block_timestamp proofs providers (events s) of
           Inl e \<Rightarrow> Inl e
         | Inr evs \<Rightarrow>
             let tokenId = tokenIdCounter s in
             (case safeMint accepts msg_sender tokenId (token s) of
                Inl e \<Rightarrow> Inl e
              | Inr tk \<Rightarrow>
                  let s1 = s\<lparr>tokenIdCounter := tokenId + 1,
                             token := tk,
                             socialProofs := (socialProofs s)(tokenId :=
                               \<lparr>holder = msg_sender, verifiedProviders = providers,
                                verificationCount = of_nat (length providers),
                                timestamp = block_timestamp, verified = True\<rparr>),
                             holderTokens := (holderTokens s)(msg_sender :=
                               holderTokens s msg_sender @ [tokenId]),
                             hasMinted := (hasMinted s)(msg_sender := True),
                             events := evs\<rparr>
                  in
                  (case generateTokenURI render tokenId s1 of
                     Inl e \<Rightarrow> Inl e
                   | Inr uri \<Rightarrow>
                       (case setTokenURI tokenId uri (token s1) of
                          Inl e \<Rightarrow> Inl e
                        | Inr tk' \<Rightarrow>
                            Inr (tokenId,
                                 s1\<lparr>token := tk',
                                    events := events s1 @
                                      [SocialProofPassMinted msg_sender tokenId providers
                                         block_timestamp]\<rparr>))))))"

definition mintSocialProofPass_uri ::
  "(uint256 \<Rightarrow> SocialProof \<Rightarrow> string) \<Rightarrow> (address \<Rightarrow> bool) \<Rightarrow> address \<Rightarrow> uint256 \<Rightarrow>
   address \<Rightarrow> string list \<Rightarrow> bytes \<Rightarrow> contract \<Rightarrow> revert + uint256 \<times> contract" where
  "mintSocialProofPass_uri render accepts msg_sender block_timestamp to providers proofData s =
     (if msg_sender \<noteq> contract_owner s then Inl (Revert ''Ownable: caller is not the owner'')
      else if \<not> length providers > 0 then Inl (Revert ''At least one provider required'')
      else if hasMinted s to then Inl (Revert ''Already minted'')
      else
        let tokenId = tokenIdCounter s in
        (case safeMint accepts to tokenId (token s) of
           Inl e \<Rightarrow> Inl e
         | Inr tk \<Rightarrow>
             let s1 = s\<lparr>tokenIdCounter := tokenId + 1,
                        token := tk,
                        socialProofs := (socialProofs s)(tokenId :=
                          \<lparr>holder = to, verifiedProviders = providers,
                           verificationCount = of_nat (length providers),
                           timestamp = block_timestamp, verified = True\<rparr>),
                        holderTokens := (holderTokens s)(to := holderTokens s to @ [tokenId]),
                        hasMinted := (hasMinted s)(to := True)\<rparr>
             in
             (case generateTokenURI render tokenId s1 of
                Inl e \<Rightarrow> Inl e
              | Inr uri \<Rightarrow>
                  (case setTokenURI tokenId uri (token s1) of
                     Inl e \<Rightarrow> Inl e
                   | Inr tk' \<Rightarrow>
                       Inr (tokenId,
                            s1\<lparr>token := tk',
                               events := events s1 @
                                 [SocialProofPassMinted to tokenId providers
                                    block_timestamp]\<rparr>)))))"

subsection \<open>The first contract, with stored proof data\<close>

record SocialProof_v1 =
  holder_v1 :: address
  verifiedProviders_v1 :: "string list"
  proofData_v1 :: bytes
  timestamp_v1 :: uint256
  verificationCount_v1 :: uint8

record contract_v1 =
  owner_v1 :: address
  tokenIdCounter_v1 :: uint256
  socialProofs_v1 :: "uint256 \<Rightarrow> SocialProof_v1"
  holderTokens_v1 :: "address \<Rightarrow> uint256 list"
  hasMinted_v1 :: "address \<Rightarrow> bool"
  token_v1 :: erc721
  events_v1 :: "event list"

definition deploy_v1 :: "address \<Rightarrow> contract_v1" where
  "deploy_v1 deployer =
     \<lparr>owner_v1 = deployer,
      tokenIdCounter_v1 = 0,
      socialProofs_v1 = (\<lambda>_. \<lparr>holder_v1 = 0, verifiedProviders_v1 = [], proofData_v1 = [],
                                timestamp_v1 = 0, verificationCount_v1 = 0\<rparr>),
      holderTokens_v1 = (\<lambda>_. []),
      hasMinted_v1 = (\<lambda>_. False),
      token_v1 = \<lparr>owners = (\<lambda>_. 0), balances = (\<lambda>_. 0), tokenURIs = (\<lambda>_. [])\<rparr>,
      events_v1 = []\<rparr>"

text \<open>
  \<open>render\<close> stands for the text (SVG and attributes, Base64-encoded) that this
  contract's \<open>generateTokenURI\<close> builds from the token identifier and the stored proof.
\<close>

definition generateTokenURI_v1 ::
  "(uint256 \<Rightarrow> SocialProof_v1 \<Rightarrow> string) \<Rightarrow> uint256 \<Rightarrow> contract_v1 \<Rightarrow> revert + string" where
  "generateTokenURI_v1 render tokenId s =
     (if \<not> exists_token (token_v1 s) tokenId then Inl (Revert ''Token does not exist'')
      else Inr (render tokenId (socialProofs_v1 s tokenId)))"

definition mintSocialProofPass_v1 ::
  "(uint256 \<Rightarrow> SocialProof_v1 \<Rightarrow> string) \<Rightarrow> (address \<Rightarrow> bool) \<Rightarrow> address \<Rightarrow> uint256 \<Rightarrow>
   address \<Rightarrow> string list \<Rightarrow> bytes \<Rightarrow> contract_v1 \<Rightarrow> revert + uint256 \<times> contract_v1" where
  "mintSocialProofPass_v1 render accepts msg_sender block_timestamp to providers proofData s =
     (if msg_sender \<noteq> owner_v1 s then Inl (OwnableUnauthorizedAccount msg_sender)
      else if \<not> length providers > 0 then Inl (Revert ''At least one provider required'')
      else if \<not> to \<noteq> 0 then Inl (Revert ''Invalid recipient address'')
      else
        let tokenId = tokenIdCounter_v1 s;
            s1 = s\<lparr>tokenIdCounter_v1 := tokenId + 1,
                   socialProofs_v1 := (socialProofs_v1 s)(tokenId :=
                     \<lparr>holder_v1 = to, verifiedProviders_v1 = providers,
                      proofData_v1 = proofData, timestamp_v1 = block_timestamp,
                      verificationCount_v1 = of_nat (length providers)\<rparr>),
                   holderTokens_v1 := (holderTokens_v1 s)(to := holderTokens_v1 s to @ [tokenId]),
                   hasMinted_v1 := (hasMinted_v1 s)(to := True)\<rparr>
        in
        (case safeMint accepts to tokenId (token_v1 s1) of
           Inl e \<Rightarrow> Inl e
         | Inr tk \<Rightarrow>
             let s2 = s1\<lparr>token_v1 := tk\<rparr> in
             (case generateTokenURI_v1 render tokenId s2 of
                Inl e \<Rightarrow> Inl e
              | Inr uri \<Rightarrow>
                  (case setTokenURI tokenId uri (token_v1 s2) of
                     Inl e \<Rightarrow> Inl e
                   | Inr tk' \<Rightarrow>
                       Inr (tokenId,
                            s2\<lparr>token_v1 := tk',
                               events_v1 := events_v1 s2 @
                                 [SocialProofPassMinted to tokenId providers
                                    block_timestamp]\<rparr>)))))"

definition addVerifiedProviders_v1 ::
  "(uint256 \<Rightarrow> SocialProof_v1 \<Rightarrow> string) \<Rightarrow> address \<Rightarrow> uint256 \<Rightarrow> uint256 \<Rightarrow> string list \<Rightarrow>
   bytes \<Rightarrow> contract_v1 \<Rightarrow> revert + unit \<times> contract_v1" where
  "addVerifiedProviders_v1 render msg_sender block_timestamp tokenId newProviders newProofData s =
     (if msg_sender \<noteq> owner_v1 s then Inl (OwnableUnauthorizedAccount msg_sender)
      else if \<not> exists_token (token_v1 s) tokenId then Inl (Revert ''Token does not exist'')
      else if \<not> length newProviders > 0 then Inl (Revert ''No providers to add'')
      else
        let proof = socialProofs_v1 s tokenId;
            pushed = foldl (\<lambda>vs p. vs @ [p]) (verifiedProviders_v1 proof) newProviders;
            s1 = s\<lparr>socialProofs_v1 := (socialProofs_v1 s)(tokenId :=
                     proof\<lparr>verifiedProviders_v1 := pushed,
                           proofData_v1 := proofData_v1 proof @ newProofData,
                           verificationCount_v1 := of_nat (length pushed)\<rparr>)\<rparr>
        in
        (case generateTokenURI_v1 render tokenId s1 of
           Inl e \<Rightarrow> Inl e
         | Inr uri \<Rightarrow>
             (case setTokenURI tokenId uri (token_v1 s1) of
                Inl e \<Rightarrow> Inl e
              | Inr tk' \<Rightarrow>
                  Inr ((),
                       s1\<lparr>token_v1 := tk',
                          events_v1 := events_v1 s1 @
                            [ProofDataUpdated tokenId newProviders block_timestamp]\<rparr>))))"

section \<open>Example inputs\<close>

text \<open>
  A configured environment, an SDK that answers, a decoder that reads a proof off the
  body (here its length, so that different bodies carry different proofs) and a verifier
  that accepts.
\<close>

definition demo_env :: environment where
  "demo_env p = \<lparr>APP_ID = Some ''app'', APP_SECRET = Some ''secret'', PROVIDER_ID = Some ''pid''\<rparr>"

definition demo_sdk :: reclaim_sdk where
  "demo_sdk app_id app_secret provider_id callback = Some (''https://request'', ''config'')"

definition demo_decode :: "string \<Rightarrow> nat option" where
  "demo_decode body = Some (length body)"

definition demo_verifyProof :: "nat \<Rightarrow> bool option" where
  "demo_verifyProof prf = Some True"

text \<open>The store after two configuration requests for \<open>github\<close>, at times 1000 and 2000.\<close>

definition two_pending :: "nat store" where
  "two_pending =
     snd (generate_config demo_env ''http://localhost:3000'' demo_sdk 2000 2000
            (Some ''github'') None
       (snd (generate_config demo_env ''http://localhost:3000'' demo_sdk 1000 1000
               (Some ''github'') None empty_store)))"

text \<open>A store whose only \<open>github\<close> session is verified already.\<close>

definition one_verified :: "nat store" where
  "one_verified =
     \<lparr>verificationSessions =
        [(''github-1000'', (new_session ''github'' None 1000)\<lparr>s_status := Verified\<rparr>),
         (''gmail-1500'', new_session ''gmail'' None 1500)],
      verificationProofs = []\<rparr>"

text \<open>The store after a first verified callback for \<open>github\<close>, received at time 3000.\<close>

definition after_first_callback :: "nat store" where
  "after_first_callback =
     snd (receive_proofs demo_env demo_decode demo_verifyProof 3000 3000 3000
            ''github'' ''a'' two_pending)"

text \<open>
  A request body with one partial proof object, written with a repeated key, and one
  entry that is no object; a clock that advances by a second per entry.
\<close>

definition demo_reclaimProofs :: json where
  "demo_reclaimProofs =
     JObj [(''github'', JObj [(''provider'', JStr ''ftp''), (''epoch'', JNum 0),
                              (''provider'', JStr ''http'')]),
           (''gmail'', JStr ''garbage'')]"

definition demo_clock :: "nat \<Rightarrow> nat" where
  "demo_clock i = 1700000123456 + 1000 * i"

text \<open>
  For the contracts: every recipient accepts tokens, the external verifier accepts every
  proof but the proof 0, and the token URI text is left empty.
\<close>

definition demo_accepts :: "address \<Rightarrow> bool" where
  "demo_accepts a = True"

definition demo_reclaim :: "address \<Rightarrow> nat \<Rightarrow> bool" where
  "demo_reclaim verifier pf = (pf \<noteq> 0)"

definition demo_render :: "uint256 \<Rightarrow> SocialProof \<Rightarrow> string" where
  "demo_render tokenId proof = []"

definition demo_render_v1 :: "uint256 \<Rightarrow> SocialProof_v1 \<Rightarrow> string" where
  "demo_render_v1 tokenId proof = []"

text \<open>The second contract after its owner, address 1, has minted for address 2.\<close>

definition minted_once :: contract where
  "minted_once =
     snd (transact (mintSocialProofPass demo_accepts 1 100 2 [''github''] []) (deploy 1))"

text \<open>The first contract after its owner, address 1, has minted for address 2.\<close>

definition minted_once_v1 :: contract_v1 where
  "minted_once_v1 =
     snd (transact (mintSocialProofPass_v1 demo_render_v1 demo_accepts 1 100 2 [''github''] [])
            (deploy_v1 1))"

section \<open>Properties of the backend relay\<close>

subsection \<open>Maps and the pending-session scan\<close>

lemma Map_get_Map_set: "Map_get (Map_set k v m) k' = (if k' = k then Some v else Map_get m k')"
  by (induction m) (auto simp: Map_get_def)

lemma keys_Map_set:
  "map fst (Map_set k v m) = (if k \<in> fst ` set m then map fst m else map fst m @ [k])"
  by (induction m) auto

lemma distinct_Map_set: "distinct (map fst m) \<Longrightarrow> distinct (map fst (Map_set k v m))"
  by (simp add: keys_Map_set)

lemma key_in_Map_set: "k \<in> fst ` set (Map_set k v m)"
  by (induction m) auto

lemma Map_get_distinct: "distinct (map fst m) \<Longrightarrow> (k, v) \<in> set m \<Longrightarrow> Map_get m k = Some v"
  by (simp add: Map_get_def)

lemma first_pending_None:
  "first_pending p es = None \<longleftrightarrow>
     (\<forall>(sid, s) \<in> set es. \<not> (s_provider s = p \<and> s_status s = Pending))"
  by (induction p es rule: first_pending.induct) auto

lemma first_pending_Some:
  "first_pending p es = Some (sid, s) \<Longrightarrow>
     (sid, s) \<in> set es \<and> s_provider s = p \<and> s_status s = Pending"
  by (induction p es rule: first_pending.induct) (auto split: if_splits)

lemma first_pending_first:
  "first_pending p es = Some (sid, s) \<Longrightarrow>
     \<exists>before after. es = before @ (sid, s) # after
       \<and> (\<forall>(k, x) \<in> set before. \<not> (s_provider x = p \<and> s_status x = Pending))"
proof (induction p es rule: first_pending.induct)
  case (1 p)
  then show ?case by simp
next
  case (2 p k x es)
  show ?case
  proof (cases "s_provider x = p \<and> s_status x = Pending")
    case True
    with "2.prems" have "(k, x) # es = [] @ (sid, s) # es" by simp
    then show ?thesis by fastforce
  next
    case False
    with "2.prems" have "first_pending p es = Some (sid, s)" by simp
    from "2.IH" [OF False this] obtain before after where
      "es = before @ (sid, s) # after"
      "\<forall>(k, x) \<in> set before. \<not> (s_provider x = p \<and> s_status x = Pending)"
      by blast
    with False have "(k, x) # es = ((k, x) # before) @ (sid, s) # after
      \<and> (\<forall>(k, x) \<in> set ((k, x) # before). \<not> (s_provider x = p \<and> s_status x = Pending))"
      by simp
    then show ?thesis by blast
  qed
qed

lemma truthy_entry_provider_names: "p \<in> set provider_names \<Longrightarrow> truthy_entry (PROVIDERS env p)"
  by (simp add: PROVIDERS_def)

lemma toString_nat_examples:
  "toString_nat 1000 = ''1000''" "toString_nat 2000 = ''2000''" "toString_nat 3000 = ''3000''"
  by (simp_all add: toString_nat.simps digit_char_def)

lemma two_pending_sessions:
  "two_pending =
     \<lparr>verificationSessions =
        [(''github-1000'', new_session ''github'' None 1000),
         (''github-2000'', new_session ''github'' None 2000)],
      verificationProofs = []\<rparr>"
  by (simp add: two_pending_def generate_config_def PROVIDERS_def provider_names_def
      demo_env_def demo_sdk_def empty_store_def toString_nat_examples Let_def)

lemma after_first_callback_store:
  "after_first_callback =
     \<lparr>verificationSessions =
        [(''github-1000'', (new_session ''github'' None 1000)
            \<lparr>s_status := Verified, s_proofKey := Some ''github-3000'', s_proof := Some 1,
             s_verifiedAt := Some 3000\<rparr>),
         (''github-2000'', new_session ''github'' None 2000)],
      verificationProofs =
        [(''github-3000'', \<lparr>sp_provider = ''github'', sp_proof = 1, sp_timestamp = 3000,
                             sp_status = Verified\<rparr>)]\<rparr>"
  by (simp add: after_first_callback_def two_pending_sessions receive_proofs_def PROVIDERS_def
      provider_names_def demo_decode_def demo_verifyProof_def new_session_def Let_def
      toString_nat_examples)

subsection \<open>Configuration requests\<close>

text \<open>
  A provider name outside the four configured ones never creates a session. The reply
  is \<open>Invalid provider\<close> unless the name is one that every object inherits, for which
  the lookup succeeds and the credentials are found missing.
\<close>

lemma generate_config_unknown_provider:
  assumes "\<forall>p. q = Some p \<longrightarrow> p \<notin> set provider_names"
  shows "snd (generate_config env base sdk now_id now_created q addr st) = st"
    and "fst (generate_config env base sdk now_id now_created q addr st) =
           (if \<exists>p. q = Some p \<and> p \<in> set object_prototype_names
            then Provider_not_configured else Invalid_provider)"
  using assms
  by (auto simp: generate_config_def PROVIDERS_def Let_def object_prototype_names_def
      split: option.splits)

text \<open>
  C5. The provider name \<open>constructor\<close> is not one of the four configured providers,
  yet the request is answered with \<open>Provider not configured\<close> (HTTP 500), not with
  \<open>Invalid provider\<close> (HTTP 400); no session is created.
\<close>

theorem generate_config_inherited_name:
  "generate_config demo_env ''http://localhost:3000'' demo_sdk 1000 1000
     (Some ''constructor'') None (empty_store :: nat store)
   = (Provider_not_configured, empty_store)"
  by (simp add: generate_config_def PROVIDERS_def provider_names_def object_prototype_names_def)

text \<open>
  C7. Two successful configuration requests for the same provider whose identifier
  timestamps are the same millisecond return the same session identifier; the second
  request replaces the session of the first, and the store gains no entry.
\<close>

theorem session_identifiers_collide:
  assumes "generate_config env base sdk now now_created (Some p) addr st = (Ok r, st1)"
    and "generate_config env' base' sdk' now now_created' (Some p) addr' st1 = (Ok r', st2)"
  shows "sessionId r' = sessionId r
         \<and> map fst (verificationSessions st2) = map fst (verificationSessions st1)
         \<and> Map_get (verificationSessions st2) (sessionId r)
             = Some (new_session p addr' now_created')"
proof -
  let ?sid = "p @ ''-'' @ toString_nat now"
  from assms(1) have r: "sessionId r = ?sid"
    and st1: "verificationSessions st1 =
                Map_set ?sid (new_session p addr now_created) (verificationSessions st)"
    by (auto simp: generate_config_def Let_def split: if_splits option.splits)
  from assms(2) have r': "sessionId r' = ?sid"
    and st2: "verificationSessions st2 =
                Map_set ?sid (new_session p addr' now_created') (verificationSessions st1)"
    by (auto simp: generate_config_def Let_def split: if_splits option.splits)
  have "?sid \<in> fst ` set (verificationSessions st1)"
    unfolding st1 by (rule key_in_Map_set)
  then show ?thesis
    by (simp add: r r' st2 keys_Map_set Map_get_Map_set)
qed

theorem session_identifiers_collide_witness:
  "generate_config demo_env ''http://localhost:3000'' demo_sdk 1000 1000 (Some ''github'')
      (Some ''0xA'') (empty_store :: nat store)
    = (Ok \<lparr>reclaimProofRequestConfig = ''config'', requestUrl = ''https://request'',
           sessionId = ''github-1000'', reply_provider = ''github''\<rparr>,
       \<lparr>verificationSessions = [(''github-1000'', new_session ''github'' (Some ''0xA'') 1000)],
        verificationProofs = []\<rparr>)
   \<and> generate_config demo_env ''http://localhost:3000'' demo_sdk 1000 1000 (Some ''github'')
      (Some ''0xB'')
      \<lparr>verificationSessions = [(''github-1000'', new_session ''github'' (Some ''0xA'') 1000)],
        verificationProofs = []\<rparr>
    = (Ok \<lparr>reclaimProofRequestConfig = ''config'', requestUrl = ''https://request'',
           sessionId = ''github-1000'', reply_provider = ''github''\<rparr>,
       \<lparr>verificationSessions = [(''github-1000'', new_session ''github'' (Some ''0xB'') 1000)],
        verificationProofs = [] :: (string, nat stored_proof) js_map\<rparr>)
   \<and> Map_get [(''github-1000'', new_session ''github'' (Some ''0xB'') 1000 :: nat session)]
        ''github-1000'' = Some (new_session ''github'' (Some ''0xB'') 1000)"
proof -
  have a: "generate_config demo_env ''http://localhost:3000'' demo_sdk 1000 1000 (Some ''github'')
      (Some ''0xA'') (empty_store :: nat store)
    = (Ok \<lparr>reclaimProofRequestConfig = ''config'', requestUrl = ''https://request'',
           sessionId = ''github-1000'', reply_provider = ''github''\<rparr>,
       \<lparr>verificationSessions = [(''github-1000'', new_session ''github'' (Some ''0xA'') 1000)],
        verificationProofs = []\<rparr>)"
    by (simp add: generate_config_def PROVIDERS_def provider_names_def
      demo_env_def demo_sdk_def empty_store_def toString_nat_examples Let_def)
  have b: "generate_config demo_env ''http://localhost:3000'' demo_sdk 1000 1000 (Some ''github'')
      (Some ''0xB'')
      \<lparr>verificationSessions = [(''github-1000'', new_session ''github'' (Some ''0xA'') 1000)],
        verificationProofs = []\<rparr>
    = (Ok \<lparr>reclaimProofRequestConfig = ''config'', requestUrl = ''https://request'',
           sessionId = ''github-1000'', reply_provider = ''github''\<rparr>,
       \<lparr>verificationSessions = [(''github-1000'', new_session ''github'' (Some ''0xB'') 1000)],
        verificationProofs = [] :: (string, nat stored_proof) js_map\<rparr>)"
    by (simp add: generate_config_def PROVIDERS_def provider_names_def
      demo_env_def demo_sdk_def empty_store_def toString_nat_examples Let_def)
  from session_identifiers_collide [OF a b] a b show ?thesis by simp
qed

subsection \<open>Callbacks\<close>

text \<open>
  C1. With two pending \<open>github\<close> sessions, created at 1000 and at 2000, a verified
  callback for \<open>github\<close> promotes the session created at 1000, the first in iteration
  order, and leaves the more recent one pending.
\<close>

theorem receive_proofs_promotes_oldest_pending:
  "Map_get (verificationSessions (snd (receive_proofs demo_env demo_decode demo_verifyProof
       3000 3000 3000 ''github'' ''proof'' two_pending))) ''github-1000''
     = Some ((new_session ''github'' None 1000)
         \<lparr>s_status := Verified, s_proofKey := Some ''github-3000'', s_proof := Some 5,
          s_verifiedAt := Some 3000\<rparr>)
   \<and> Map_get (verificationSessions (snd (receive_proofs demo_env demo_decode demo_verifyProof
       3000 3000 3000 ''github'' ''proof'' two_pending))) ''github-2000''
     = Some (new_session ''github'' None 2000)"
  by (simp add: two_pending_sessions receive_proofs_def PROVIDERS_def provider_names_def
      demo_decode_def demo_verifyProof_def new_session_def Map_get_def Let_def
      toString_nat_examples)

text \<open>
  C9. Every callback for a supported provider whose proof decodes and passes
  verification is answered with 200 and stores the proof under its key
  (provider and timestamp), whether or not a session of that provider is pending: the
  proof store after the call is the one before with that entry set. When no session of
  the provider is pending, the sessions are left as they were.
\<close>

theorem receive_proofs_stores_proof:
  assumes "provider \<in> set provider_names"
    and "decode body = Some pf"
    and "verifyProof pf = Some True"
  shows "\<exists>st'. receive_proofs env decode verifyProof now_key now_stored now_verified
                  provider body st = (Ok (), st')
           \<and> verificationProofs st'
               = Map_set (provider @ ''-'' @ toString_nat now_key)
                   \<lparr>sp_provider = provider, sp_proof = pf, sp_timestamp = now_stored,
                    sp_status = Verified\<rparr>
                   (verificationProofs st)
           \<and> Map_get (verificationProofs st') (provider @ ''-'' @ toString_nat now_key)
               = Some \<lparr>sp_provider = provider, sp_proof = pf, sp_timestamp = now_stored,
                       sp_status = Verified\<rparr>
           \<and> (\<not> (\<exists>(sid, s) \<in> set (verificationSessions st).
                    s_provider s = provider \<and> s_status s = Pending)
                \<longrightarrow> verificationSessions st' = verificationSessions st)"
proof (cases "first_pending provider (verificationSessions st)")
  case None
  then show ?thesis
    using assms
    by (simp add: receive_proofs_def truthy_entry_provider_names Map_get_Map_set)
next
  case (Some found)
  obtain sid s where found: "found = (sid, s)" by (cases found)
  from first_pending_Some [OF Some [unfolded found]]
  have "\<exists>(sid, s) \<in> set (verificationSessions st).
          s_provider s = provider \<and> s_status s = Pending"
    by blast
  then show ?thesis
    using assms Some found
    by (simp add: receive_proofs_def truthy_entry_provider_names Map_get_Map_set Let_def)
qed

theorem receive_proofs_stores_proof_witness:
  "''github'' \<in> set provider_names
   \<and> demo_decode ''proof'' = Some 5
   \<and> demo_verifyProof 5 = Some True
   \<and> \<not> (\<exists>(sid, s) \<in> set (verificationSessions one_verified).
            s_provider s = ''github'' \<and> s_status s = Pending)
   \<and> (\<exists>st'. receive_proofs demo_env demo_decode demo_verifyProof 3000 3001 3002
                  ''github'' ''proof'' one_verified = (Ok (), st')
           \<and> Map_get (verificationProofs st') (''github'' @ ''-'' @ toString_nat 3000)
               = Some \<lparr>sp_provider = ''github'', sp_proof = 5, sp_timestamp = 3001,
                       sp_status = Verified\<rparr>
           \<and> verificationSessions st' = verificationSessions one_verified)
   \<and> (\<exists>st'. receive_proofs demo_env demo_decode demo_verifyProof 3000 3001 3002
                  ''github'' ''proof'' two_pending = (Ok (), st')
           \<and> Map_get (verificationProofs st') (''github'' @ ''-'' @ toString_nat 3000)
               = Some \<lparr>sp_provider = ''github'', sp_proof = 5, sp_timestamp = 3001,
                       sp_status = Verified\<rparr>)"
proof -
  have h1: "''github'' \<in> set provider_names" by (simp add: provider_names_def)
  have h2: "demo_decode ''proof'' = Some 5" by (simp add: demo_decode_def)
  have h3: "demo_verifyProof 5 = Some True" by (simp add: demo_verifyProof_def)
  have h4: "\<not> (\<exists>(sid, s) \<in> set (verificationSessions one_verified).
         s_provider s = ''github'' \<and> s_status s = Pending)"
    by (simp add: one_verified_def new_session_def)
  note t = receive_proofs_stores_proof [where provider = "''github''" and decode = demo_decode
      and body = "''proof''" and pf = 5 and verifyProof = demo_verifyProof and env = demo_env
      and now_key = 3000 and now_stored = 3001 and now_verified = 3002, OF h1 h2 h3]
  from t [of one_verified] h4
  have a: "\<exists>st'. receive_proofs demo_env demo_decode demo_verifyProof 3000 3001 3002
                  ''github'' ''proof'' one_verified = (Ok (), st')
           \<and> Map_get (verificationProofs st') (''github'' @ ''-'' @ toString_nat 3000)
               = Some \<lparr>sp_provider = ''github'', sp_proof = 5, sp_timestamp = 3001,
                       sp_status = Verified\<rparr>
           \<and> verificationSessions st' = verificationSessions one_verified"
    by blast
  from t [of two_pending]
  have b: "\<exists>st'. receive_proofs demo_env demo_decode demo_verifyProof 3000 3001 3002
                  ''github'' ''proof'' two_pending = (Ok (), st')
           \<and> Map_get (verificationProofs st') (''github'' @ ''-'' @ toString_nat 3000)
               = Some \<lparr>sp_provider = ''github'', sp_proof = 5, sp_timestamp = 3001,
                       sp_status = Verified\<rparr>"
    by blast
  from h1 h2 h3 h4 a b show ?thesis by (intro conjI)
qed

text \<open>
  C10, as stated, fails on the stored proofs: a second verified callback for \<open>github\<close>
  in the millisecond of the first promotes the pending session \<open>github-2000\<close> and
  replaces the proof that the first callback stored under \<open>github-3000\<close>.
\<close>

theorem receive_proofs_replaces_stored_proof:
  "Map_get (verificationProofs after_first_callback) ''github-3000''
     = Some \<lparr>sp_provider = ''github'', sp_proof = 1, sp_timestamp = 3000, sp_status = Verified\<rparr>
   \<and> Map_get (verificationSessions after_first_callback) ''github-2000''
     = Some (new_session ''github'' None 2000)
   \<and> Map_get (verificationSessions (snd (receive_proofs demo_env demo_decode demo_verifyProof
        3000 3000 3000 ''github'' ''ab'' after_first_callback))) ''github-2000''
     = Some ((new_session ''github'' None 2000)
         \<lparr>s_status := Verified, s_proofKey := Some ''github-3000'', s_proof := Some 2,
          s_verifiedAt := Some 3000\<rparr>)
   \<and> Map_get (verificationProofs (snd (receive_proofs demo_env demo_decode demo_verifyProof
        3000 3000 3000 ''github'' ''ab'' after_first_callback))) ''github-3000''
     = Some \<lparr>sp_provider = ''github'', sp_proof = 2, sp_timestamp = 3000, sp_status = Verified\<rparr>"
  by (simp add: after_first_callback_store receive_proofs_def PROVIDERS_def provider_names_def
      demo_decode_def demo_verifyProof_def new_session_def Map_get_def Let_def
      toString_nat_examples)

text \<open>
  C10, amended. When a callback is answered with 200 and a session of the provider is
  pending, one such session is promoted: its status, proof key, proof and verification
  time are set and its provider, address and creation time are kept; every other
  session is unchanged and no session is added or removed; every stored proof under a
  key other than the new proof key is unchanged.
\<close>

theorem receive_proofs_frame:
  assumes wf: "distinct (map fst (verificationSessions st))"
    and ok: "receive_proofs env decode verifyProof now_key now_stored now_verified
               provider body st = (Ok (), st')"
    and pending: "\<exists>(sid, s) \<in> set (verificationSessions st).
                    s_provider s = provider \<and> s_status s = Pending"
  shows "\<exists>sid s prf.
           Map_get (verificationSessions st) sid = Some s
         \<and> s_provider s = provider \<and> s_status s = Pending
         \<and> decode body = Some prf
         \<and> Map_get (verificationSessions st') sid
             = Some (s\<lparr>s_status := Verified,
                       s_proofKey := Some (provider @ ''-'' @ toString_nat now_key),
                       s_proof := Some prf, s_verifiedAt := Some now_verified\<rparr>)
         \<and> (\<forall>k. k \<noteq> sid \<longrightarrow>
               Map_get (verificationSessions st') k = Map_get (verificationSessions st) k)
         \<and> map fst (verificationSessions st') = map fst (verificationSessions st)
         \<and> (\<forall>k. k \<noteq> provider @ ''-'' @ toString_nat now_key \<longrightarrow>
               Map_get (verificationProofs st') k = Map_get (verificationProofs st) k)"
proof -
  from pending obtain sid s where fp: "first_pending provider (verificationSessions st) = Some (sid, s)"
    using first_pending_None [of provider "verificationSessions st"] by fastforce
  from first_pending_Some [OF fp] have mem: "(sid, s) \<in> set (verificationSessions st)"
    and p: "s_provider s = provider" and pe: "s_status s = Pending" by auto
  from wf mem have get: "Map_get (verificationSessions st) sid = Some s"
    by (rule Map_get_distinct)
  from mem have key: "sid \<in> fst ` set (verificationSessions st)" by force
  from ok obtain pf where dec: "decode body = Some pf" and ver: "verifyProof pf = Some True"
    and tr: "truthy_entry (PROVIDERS env provider)"
    by (auto simp: receive_proofs_def split: if_splits option.splits bool.splits)
  from ok dec ver tr fp
  have st': "st' = st\<lparr>verificationProofs :=
                        Map_set (provider @ ''-'' @ toString_nat now_key)
                          \<lparr>sp_provider = provider, sp_proof = pf,
                           sp_timestamp = now_stored, sp_status = Verified\<rparr>
                          (verificationProofs st),
                      verificationSessions :=
                        Map_set sid
                          (s\<lparr>s_status := Verified,
                             s_proofKey := Some (provider @ ''-'' @ toString_nat now_key),
                             s_proof := Some pf, s_verifiedAt := Some now_verified\<rparr>)
                          (verificationSessions st)\<rparr>"
    by (simp add: receive_proofs_def Let_def)
  show ?thesis
    apply (rule exI [of _ sid], rule exI [of _ s], rule exI [of _ pf])
    using get p pe dec key by (simp add: st' Map_get_Map_set keys_Map_set)
qed

theorem receive_proofs_frame_witness:
  "distinct (map fst (verificationSessions two_pending))
   \<and> receive_proofs demo_env demo_decode demo_verifyProof 3000 3000 3000 ''github'' ''a''
       two_pending = (Ok (), after_first_callback)
   \<and> (\<exists>(sid, s) \<in> set (verificationSessions two_pending).
          s_provider s = ''github'' \<and> s_status s = Pending)
   \<and> (\<exists>sid s prf.
           Map_get (verificationSessions two_pending) sid = Some s
         \<and> s_provider s = ''github'' \<and> s_status s = Pending
         \<and> demo_decode ''a'' = Some prf
         \<and> Map_get (verificationSessions after_first_callback) sid
             = Some (s\<lparr>s_status := Verified,
                       s_proofKey := Some (''github'' @ ''-'' @ toString_nat 3000),
                       s_proof := Some prf, s_verifiedAt := Some 3000\<rparr>)
         \<and> (\<forall>k. k \<noteq> sid \<longrightarrow>
               Map_get (verificationSessions after_first_callback) k
                 = Map_get (verificationSessions two_pending) k)
         \<and> map fst (verificationSessions after_first_callback)
             = map fst (verificationSessions two_pending)
         \<and> (\<forall>k. k \<noteq> ''github'' @ ''-'' @ toString_nat 3000 \<longrightarrow>
               Map_get (verificationProofs after_first_callback) k
                 = Map_get (verificationProofs two_pending) k))"
proof -
  have h1: "distinct (map fst (verificationSessions two_pending))"
    by (simp add: two_pending_sessions)
  have h2: "receive_proofs demo_env demo_decode demo_verifyProof 3000 3000 3000 ''github'' ''a''
       two_pending = (Ok (), after_first_callback)"
    by (simp add: after_first_callback_def two_pending_sessions receive_proofs_def PROVIDERS_def
      provider_names_def demo_decode_def demo_verifyProof_def new_session_def Let_def
      toString_nat_examples)
  have h3: "\<exists>(sid, s) \<in> set (verificationSessions two_pending).
          s_provider s = ''github'' \<and> s_status s = Pending"
    by (simp add: two_pending_sessions new_session_def)
  from receive_proofs_frame [OF h1 h2 h3] h1 h2 h3 show ?thesis by blast
qed

subsection \<open>Status queries\<close>

lemma latest_session_None:
  "latest_session q es latest = None \<longleftrightarrow>
     latest = None \<and> (\<forall>(sid, s) \<in> set es. Some (s_provider s) \<noteq> q)"
  by (induction q es latest rule: latest_session.induct) (auto split: option.splits)

lemma latest_session_Some:
  "latest_session q es latest = Some (sid, s) \<Longrightarrow>
     (latest = Some (sid, s) \<or> ((sid, s) \<in> set es \<and> Some (s_provider s) = q))
     \<and> (\<forall>(k, s') \<in> set es. Some (s_provider s') = q \<longrightarrow> s_createdAt s' \<le> s_createdAt s)
     \<and> (\<forall>l. latest = Some l \<longrightarrow> s_createdAt (snd l) \<le> s_createdAt s)"
proof (induction q es latest rule: latest_session.induct)
  case (1 q latest)
  then show ?case by auto
next
  case (2 q k s0 es latest)
  let ?next = "if Some (s_provider s0) = q
               then (case latest of
                       None \<Rightarrow> Some (k, s0)
                     | Some (lid, l) \<Rightarrow>
                         if s_createdAt s0 > s_createdAt l then Some (k, s0) else latest)
               else latest"
  from "2.prems" have run: "latest_session q es ?next = Some (sid, s)" by simp
  note ih = "2.IH" [OF run]
  show ?case
  proof (cases "Some (s_provider s0) = q")
    case False
    then have "?next = latest" by simp
    with ih False show ?thesis by auto
  next
    case match: True
    show ?thesis
    proof (cases latest)
      case None
      then have "?next = Some (k, s0)" using match by simp
      with ih match None show ?thesis by auto
    next
      case (Some l)
      obtain lid ls where l: "l = (lid, ls)" by (cases l)
      show ?thesis
      proof (cases "s_createdAt s0 > s_createdAt ls")
        case True
        then have "?next = Some (k, s0)" using match Some l by simp
        with ih match Some l True show ?thesis by auto
      next
        case False
        then have "?next = latest" using match Some l by simp
        with ih match Some l False show ?thesis by auto
      qed
    qed
  qed
qed

text \<open>
  C6. The status query scans all sessions. When none has the queried provider the
  reply is \<open>not_found\<close>; otherwise the reply carries the status, identifier and proof
  of a session of that provider whose \<open>createdAt\<close> no other session of the provider
  exceeds.
\<close>

theorem verification_status_latest:
  "(if \<exists>(k, s) \<in> set (verificationSessions st). Some (s_provider s) = q
    then \<exists>sid s. (sid, s) \<in> set (verificationSessions st)
           \<and> Some (s_provider s) = q
           \<and> (\<forall>(k, s') \<in> set (verificationSessions st).
                 Some (s_provider s') = q \<longrightarrow> s_createdAt s' \<le> s_createdAt s)
           \<and> verification_status q st = Session_status (s_status s) sid (s_proof s) (s_provider s)
    else verification_status q st = Not_found)"
proof (cases "latest_session q (verificationSessions st) None")
  case None
  then have "\<forall>(sid, s) \<in> set (verificationSessions st). Some (s_provider s) \<noteq> q"
    by (simp add: latest_session_None)
  then have "\<not> (\<exists>(k, s) \<in> set (verificationSessions st). Some (s_provider s) = q)"
    by fastforce
  then show ?thesis
    using None by (simp add: verification_status_def)
next
  case (Some r)
  obtain sid s where r: "r = (sid, s)" by (cases r)
  from latest_session_Some [OF Some [unfolded r]]
  have "(sid, s) \<in> set (verificationSessions st)" "Some (s_provider s) = q"
    "\<forall>(k, s') \<in> set (verificationSessions st).
        Some (s_provider s') = q \<longrightarrow> s_createdAt s' \<le> s_createdAt s"
    by auto
  then show ?thesis
    using Some r by (auto simp: verification_status_def)
qed

theorem verification_status_latest_witness:
  "(\<exists>(k, s) \<in> set (verificationSessions after_first_callback). Some (s_provider s) = Some ''github'')
   \<and> (\<exists>sid s. (sid, s) \<in> set (verificationSessions after_first_callback)
           \<and> Some (s_provider s) = Some ''github''
           \<and> (\<forall>(k, s') \<in> set (verificationSessions after_first_callback).
                 Some (s_provider s') = Some ''github'' \<longrightarrow> s_createdAt s' \<le> s_createdAt s)
           \<and> verification_status (Some ''github'') after_first_callback
                = Session_status (s_status s) sid (s_proof s) (s_provider s))
   \<and> verification_status (Some ''github'') after_first_callback
        = Session_status Pending ''github-2000'' None ''github''"
proof -
  have c: "\<exists>(k, s) \<in> set (verificationSessions after_first_callback).
             Some (s_provider s) = Some ''github''"
    by (simp add: after_first_callback_store new_session_def)
  have v: "verification_status (Some ''github'') after_first_callback
             = Session_status Pending ''github-2000'' None ''github''"
    by (simp add: after_first_callback_store new_session_def verification_status_def)
  note verification_status_latest [of after_first_callback "Some ''github''", unfolded if_P [OF c]]
  with c v show ?thesis by (intro conjI)
qed

subsection \<open>Preparing the on-chain payload\<close>

lemma those_map_Some:
  "(\<And>x. x \<in> set xs \<Longrightarrow> f x \<noteq> None) \<Longrightarrow> those (map f xs) = Some (map (\<lambda>x. the (f x)) xs)"
  by (induction xs) (auto split: option.splits)

lemma those_map_None: "x \<in> set xs \<Longrightarrow> f x = None \<Longrightarrow> those (map f xs) = None"
  by (induction xs) (auto split: option.splits)

lemma read_prop_not_null: "raw \<noteq> JNull \<Longrightarrow> \<exists>v. read_prop raw k = Some v"
  by (cases raw) auto

lemma or_else_falsy: "\<not> truthy a \<Longrightarrow> or_else a d = d"
  by (simp add: or_else_def)

lemma or_else_truthy: "truthy a \<Longrightarrow> Some (or_else a d) = a"
  by (cases a) (simp_all add: or_else_def)

text \<open>
  The mapping itself does what is expected of it: for a raw proof other than \<open>null\<close>
  each field of the result is the raw proof's field when that is truthy and the
  default when it is absent or falsy.
\<close>

lemma transform_proof_fields:
  assumes "raw \<noteq> JNull"
  shows "\<exists>tp. transform_proof w now raw = Some tp
     \<and> (\<forall>(k, field, d) \<in> set
            [(''provider'', ci_provider \<circ> claimInfo, JStr []),
             (''parameters'', ci_parameters \<circ> claimInfo, JStr []),
             (''context'', ci_context \<circ> claimInfo, JStr []),
             (''identifier'', cl_identifier \<circ> sc_claim \<circ> signedClaim, JStr zero_identifier),
             (''owner'', cl_owner \<circ> sc_claim \<circ> signedClaim, w),
             (''timestampS'', cl_timestampS \<circ> sc_claim \<circ> signedClaim,
                JNum (real (now div 1000))),
             (''epoch'', cl_epoch \<circ> sc_claim \<circ> signedClaim, JNum 1),
             (''signatures'', sc_signatures \<circ> signedClaim, JArr [])].
          \<forall>v. read_prop raw k = Some v \<longrightarrow>
            (\<not> truthy v \<longrightarrow> field tp = d) \<and> (truthy v \<longrightarrow> Some (field tp) = v))"
proof -
  from assms obtain v where "read_prop raw ''provider'' = Some v"
    using read_prop_not_null by blast
  then show ?thesis
    by (simp add: transform_proof_def or_else_falsy or_else_truthy)
qed

lemma transform_proof_null: "transform_proof w now JNull = None"
  by (simp add: transform_proof_def)

lemma transform_all_defaults:
  assumes "JNull \<notin> set raws"
  shows "\<exists>tps. transform_all w clock raws = Some tps
     \<and> length tps = length raws
     \<and> (\<forall>i < length raws.
          \<forall>(k, field, d) \<in> set
            [(''provider'', ci_provider \<circ> claimInfo, JStr []),
             (''parameters'', ci_parameters \<circ> claimInfo, JStr []),
             (''context'', ci_context \<circ> claimInfo, JStr []),
             (''identifier'', cl_identifier \<circ> sc_claim \<circ> signedClaim, JStr zero_identifier),
             (''owner'', cl_owner \<circ> sc_claim \<circ> signedClaim, w),
             (''timestampS'', cl_timestampS \<circ> sc_claim \<circ> signedClaim,
                JNum (real (clock i div 1000))),
             (''epoch'', cl_epoch \<circ> sc_claim \<circ> signedClaim, JNum 1),
             (''signatures'', sc_signatures \<circ> signedClaim, JArr [])].
          \<forall>v. read_prop (raws ! i) k = Some v \<longrightarrow>
            (\<not> truthy v \<longrightarrow> field (tps ! i) = d)
            \<and> (truthy v \<longrightarrow> Some (field (tps ! i)) = v))"
proof -
  let ?f = "\<lambda>(i, raw). transform_proof w (clock i) raw"
  let ?tps = "map (\<lambda>x. the (?f x)) (enumerate 0 raws)"
  have some: "?f x \<noteq> None" if "x \<in> set (enumerate 0 raws)" for x
  proof -
    obtain i raw where x: "x = (i, raw)" by (cases x)
    with that have "raw \<in> set raws" by (auto simp: in_set_enumerate_eq)
    with assms have "raw \<noteq> JNull" by metis
    from transform_proof_fields [OF this, of w "clock i"] x show ?thesis by auto
  qed
  then have all: "transform_all w clock raws = Some ?tps"
    unfolding transform_all_def by (rule those_map_Some)
  have fields: "\<forall>(k, field, d) \<in> set
            [(''provider'', ci_provider \<circ> claimInfo, JStr []),
             (''parameters'', ci_parameters \<circ> claimInfo, JStr []),
             (''context'', ci_context \<circ> claimInfo, JStr []),
             (''identifier'', cl_identifier \<circ> sc_claim \<circ> signedClaim, JStr zero_identifier),
             (''owner'', cl_owner \<circ> sc_claim \<circ> signedClaim, w),
             (''timestampS'', cl_timestampS \<circ> sc_claim \<circ> signedClaim,
                JNum (real (clock i div 1000))),
             (''epoch'', cl_epoch \<circ> sc_claim \<circ> signedClaim, JNum 1),
             (''signatures'', sc_signatures \<circ> signedClaim, JArr [])].
          \<forall>v. read_prop (raws ! i) k = Some v \<longrightarrow>
            (\<not> truthy v \<longrightarrow> field (?tps ! i) = d)
            \<and> (truthy v \<longrightarrow> Some (field (?tps ! i)) = v)"
    if i: "i < length raws" for i
  proof -
    from i have "raws ! i \<in> set raws" by simp
    with assms have "raws ! i \<noteq> JNull" by metis
    from transform_proof_fields [OF this, of w "clock i"]
    obtain tp where tp: "transform_proof w (clock i) (raws ! i) = Some tp" and
      f: "\<forall>(k, field, d) \<in> set
            [(''provider'', ci_provider \<circ> claimInfo, JStr []),
             (''parameters'', ci_parameters \<circ> claimInfo, JStr []),
             (''context'', ci_context \<circ> claimInfo, JStr []),
             (''identifier'', cl_identifier \<circ> sc_claim \<circ> signedClaim, JStr zero_identifier),
             (''owner'', cl_owner \<circ> sc_claim \<circ> signedClaim, w),
             (''timestampS'', cl_timestampS \<circ> sc_claim \<circ> signedClaim,
                JNum (real (clock i div 1000))),
             (''epoch'', cl_epoch \<circ> sc_claim \<circ> signedClaim, JNum 1),
             (''signatures'', sc_signatures \<circ> signedClaim, JArr [])].
          \<forall>v. read_prop (raws ! i) k = Some v \<longrightarrow>
            (\<not> truthy v \<longrightarrow> field tp = d) \<and> (truthy v \<longrightarrow> Some (field tp) = v)"
      by blast
    from i tp have "?tps ! i = tp" by (simp add: nth_enumerate_eq)
    with f show ?thesis by (simp only:)
  qed
  show ?thesis
    apply (rule exI [of _ ?tps])
    using all fields by simp
qed

lemma transform_all_null: "JNull \<in> set raws \<Longrightarrow> transform_all w clock raws = None"
proof -
  assume "JNull \<in> set raws"
  then obtain i where "i < length raws" "raws ! i = JNull" by (auto simp: in_set_conv_nth)
  then have "(i, JNull) \<in> set (enumerate 0 raws)" by (auto simp: in_set_enumerate_eq)
  then show ?thesis
    unfolding transform_all_def
    by (rule those_map_None) (simp add: transform_proof_null)
qed

text \<open>
  Whatever the request, the handler never answers with the payload: past the guard
  the reply carries the chain identifier as a BigInt, which \<open>res.json\<close> cannot
  serialise.
\<close>

lemma prepare_onchain_mint_never_Ok:
  "prepare_onchain_mint address contract_abi network clock wallet raws requested \<noteq> Ok reply"
  by (simp add: prepare_onchain_mint_def Let_def split: option.splits)

lemma array_index_examples:
  "array_index ''github'' = None" "array_index ''gmail'' = None"
  by (simp_all add: array_index_def is_digit_def)

lemma demo_reclaimProofs_values:
  "Object_values demo_reclaimProofs
   = [JObj [(''provider'', JStr ''ftp''), (''epoch'', JNum 0), (''provider'', JStr ''http'')],
      JStr ''garbage'']"
  by (simp add: demo_reclaimProofs_def own_properties_def enumeration_order_def
      array_index_examples)

lemma demo_reclaimProofs_transformed:
  "transform_all (JStr ''0xabc'') demo_clock (Object_values demo_reclaimProofs)
   = Some
       [\<lparr>claimInfo = \<lparr>ci_provider = JStr ''http'', ci_parameters = JStr [],
                      ci_context = JStr []\<rparr>,
         signedClaim =
           \<lparr>sc_claim = \<lparr>cl_identifier = JStr zero_identifier,
                        cl_owner = JStr ''0xabc'',
                        cl_timestampS = JNum 1700000123, cl_epoch = JNum 1\<rparr>,
            sc_signatures = JArr []\<rparr>\<rparr>,
        \<lparr>claimInfo = \<lparr>ci_provider = JStr [], ci_parameters = JStr [],
                      ci_context = JStr []\<rparr>,
         signedClaim =
           \<lparr>sc_claim = \<lparr>cl_identifier = JStr zero_identifier,
                        cl_owner = JStr ''0xabc'',
                        cl_timestampS = JNum 1700000124, cl_epoch = JNum 1\<rparr>,
            sc_signatures = JArr []\<rparr>\<rparr>]"
  by (simp add: demo_reclaimProofs_values transform_all_def enumerate_eq_zip transform_proof_def
      or_else_def own_properties_def Map_get_def demo_clock_def upt_rec)

text \<open>
  C8. A request with a wallet address, two raw proofs (an incomplete object and a
  text) and a provider list passes the guard, and the mapping yields two transformed
  proofs with the defaults in place; yet the request is answered with
  \<open>Failed to prepare on-chain mint\<close> (HTTP 500), because the reply holds the chain
  identifier as a BigInt.
\<close>

theorem prepare_onchain_mint_rejects:
  "prepare_onchain_mint (Some ''0xc0'') [] (Some 11155111) demo_clock
     (Some (JStr ''0xabc'')) (Some demo_reclaimProofs)
     (Some (JArr [JStr ''github'', JStr ''gmail'']))
   = Failed_to_prepare_onchain_mint"
proof -
  have "truthy (Some demo_reclaimProofs)" by (simp add: demo_reclaimProofs_def)
  then show ?thesis
    by (simp add: prepare_onchain_mint_def falsy_def demo_reclaimProofs_transformed Let_def)
qed

section \<open>Properties of the registry contract\<close>

subsection \<open>Minting with on-chain verification\<close>

lemma verify_loop_Inr:
  "verify_loop valid supported sender tokenId now proofs providers evs = Inr evs' \<Longrightarrow>
   length proofs = length providers \<Longrightarrow>
   (\<forall>p \<in> set providers. supported p) \<and> (\<forall>pf \<in> set proofs. valid pf)"
  by (induction valid supported sender tokenId now proofs providers evs
      rule: verify_loop.induct) (auto split: if_splits)

lemma transact_revert: "call s = Inl e \<Longrightarrow> transact call s = (Inl e, s)"
  by (simp add: transact_def)

lemma mintWithProofVerification_reverts:
  assumes "length proofs \<noteq> length providers \<or> hasMinted s msg_sender
      \<or> (\<exists>p \<in> set providers. \<not> supportedProviders s p)
      \<or> (\<exists>pf \<in> set proofs. \<not> reclaim (reclaimAddress s) pf)"
  shows "\<exists>e. mintWithProofVerification accepts reclaim msg_sender now proofs providers s = Inl e"
proof (cases "length proofs = length providers \<and> \<not> hasMinted s msg_sender")
  case False
  then show ?thesis by (auto simp: mintWithProofVerification_def)
next
  case True
  with assms have bad: "(\<exists>p \<in> set providers. \<not> supportedProviders s p)
      \<or> (\<exists>pf \<in> set proofs. \<not> reclaim (reclaimAddress s) pf)" by blast
  have "\<exists>e. verify_loop (reclaim (reclaimAddress s)) (supportedProviders s) msg_sender
                (tokenIdCounter s) now proofs providers (events s) = Inl e"
  proof (cases "verify_loop (reclaim (reclaimAddress s)) (supportedProviders s) msg_sender
                (tokenIdCounter s) now proofs providers (events s)")
    case (Inl e)
    then show ?thesis by blast
  next
    case (Inr evs)
    from verify_loop_Inr [OF Inr] True bad show ?thesis by blast
  qed
  then show ?thesis by (auto simp: mintWithProofVerification_def)
qed

lemma mintWithProofVerification_uri_reverts:
  assumes "length proofs \<noteq> length providers \<or> hasMinted s msg_sender
      \<or> (\<exists>p \<in> set providers. \<not> supportedProviders s p)
      \<or> (\<exists>pf \<in> set proofs. \<not> reclaim (reclaimAddress s) pf)"
  shows "\<exists>e. mintWithProofVerification_uri render accepts reclaim msg_sender now proofs
                providers s = Inl e"
proof (cases "length proofs = length providers \<and> \<not> hasMinted s msg_sender")
  case False
  then show ?thesis by (auto simp: mintWithProofVerification_uri_def)
next
  case True
  with assms have bad: "(\<exists>p \<in> set providers. \<not> supportedProviders s p)
      \<or> (\<exists>pf \<in> set proofs. \<not> reclaim (reclaimAddress s) pf)" by blast
  have "\<exists>e. verify_loop (reclaim (reclaimAddress s)) (supportedProviders s) msg_sender
                (tokenIdCounter s) now proofs providers (events s) = Inl e"
  proof (cases "verify_loop (reclaim (reclaimAddress s)) (supportedProviders s) msg_sender
                (tokenIdCounter s) now proofs providers (events s)")
    case (Inl e)
    then show ?thesis by blast
  next
    case (Inr evs)
    from verify_loop_Inr [OF Inr] True bad show ?thesis by blast
  qed
  then show ?thesis by (auto simp: mintWithProofVerification_uri_def)
qed

text \<open>
  C3. When the two arrays differ in length, or the caller has minted already, or some
  provider in the list is unsupported, or the external verifier rejects some proof in
  the batch, \<open>mintWithProofVerification\<close> reverts, in the contract without and in the
  contract with stored token URIs, and the transaction leaves the whole contract state
  (\<open>socialProofs\<close>, \<open>holderTokens\<close>, \<open>hasMinted\<close>, the token counter and the token
  ledger) as it was.
\<close>

theorem mintWithProofVerification_atomic:
  assumes "length proofs \<noteq> length providers \<or> hasMinted s msg_sender
      \<or> (\<exists>p \<in> set providers. \<not> supportedProviders s p)
      \<or> (\<exists>pf \<in> set proofs. \<not> reclaim (reclaimAddress s) pf)"
  shows "(\<exists>e. transact (mintWithProofVerification accepts reclaim msg_sender now proofs
                  providers) s = (Inl e, s))
       \<and> (\<exists>e. transact (mintWithProofVerification_uri render accepts reclaim msg_sender now
                  proofs providers) s = (Inl e, s))"
  using mintWithProofVerification_reverts [where reclaim = reclaim and accepts = accepts
      and now = now, OF assms]
    mintWithProofVerification_uri_reverts [where reclaim = reclaim and accepts = accepts
      and now = now and render = render, OF assms]
  by (auto simp: transact_revert)

lemma deploy_fields:
  "contract_owner (deploy a) = a" "tokenIdCounter (deploy a) = 0"
  "hasMinted (deploy a) u = False"
  "supportedProviders (deploy a) p =
     (p = ''github'' \<or> p = ''gmail'' \<or> p = ''linkedin'' \<or> p = ''twitter'')"
  "holderTokens (deploy a) u = []"
  "owners (token (deploy a)) t = 0" "events (deploy a) = []"
  by (simp_all add: deploy_def)

theorem mintWithProofVerification_atomic_witness:
  "(\<exists>pf \<in> set [1, 0 :: nat]. \<not> demo_reclaim (reclaimAddress (deploy 1)) pf)
   \<and> length [1, 0 :: nat] = length [''github'', ''gmail'']
   \<and> transact (mintWithProofVerification demo_accepts demo_reclaim 7 100 [1, 0]
        [''github'', ''gmail'']) (deploy 1) = (Inl Reclaim_revert, deploy 1)
   \<and> transact (mintWithProofVerification_uri demo_render demo_accepts demo_reclaim 7 100 [1, 0]
        [''github'', ''gmail'']) (deploy 1) = (Inl Reclaim_revert, deploy 1)"
proof -
  have h: "(\<exists>pf \<in> set [1, 0 :: nat]. \<not> demo_reclaim (reclaimAddress (deploy 1)) pf)"
    by (simp add: demo_reclaim_def)
  then have hyp: "length [1, 0 :: nat] \<noteq> length [''github'', ''gmail''] \<or> hasMinted (deploy 1) 7
      \<or> (\<exists>p \<in> set [''github'', ''gmail'']. \<not> supportedProviders (deploy 1) p)
      \<or> (\<exists>pf \<in> set [1, 0 :: nat]. \<not> demo_reclaim (reclaimAddress (deploy 1)) pf)"
    by (intro disjI2)
  have a: "mintWithProofVerification demo_accepts demo_reclaim 7 100 [1, 0]
        [''github'', ''gmail''] (deploy 1) = Inl Reclaim_revert"
    by (simp add: mintWithProofVerification_def deploy_fields demo_reclaim_def)
  have b: "mintWithProofVerification_uri demo_render demo_accepts demo_reclaim 7 100 [1, 0]
        [''github'', ''gmail''] (deploy 1) = Inl Reclaim_revert"
    by (simp add: mintWithProofVerification_uri_def deploy_fields demo_reclaim_def)
  from mintWithProofVerification_atomic [where reclaim = demo_reclaim
      and accepts = demo_accepts and now = 100 and render = demo_render, OF hyp] h a b
  show ?thesis by (simp add: transact_def)
qed


subsection \<open>Owner-gated minting\<close>

lemma transact_return: "call s = Inr (r, s') \<Longrightarrow> transact call s = (Inr r, s')"
  by (simp add: transact_def)

lemma mintSocialProofPass_guards:
  assumes "msg_sender \<noteq> contract_owner s \<or> providers = [] \<or> to = 0 \<or> hasMinted s to"
  shows "\<exists>e. mintSocialProofPass accepts msg_sender now to providers data s = Inl e"
  using assms by (auto simp: mintSocialProofPass_def safeMint_def Let_def)

lemma mintSocialProofPass_uri_guards:
  assumes "msg_sender \<noteq> contract_owner s \<or> providers = [] \<or> to = 0 \<or> hasMinted s to"
  shows "\<exists>e. mintSocialProofPass_uri render accepts msg_sender now to providers data s = Inl e"
  using assms by (auto simp: mintSocialProofPass_uri_def safeMint_def Let_def)

lemma mintSocialProofPass_minted:
  assumes "mintSocialProofPass accepts msg_sender now to providers data s = Inr (tokenId, s')"
  shows "hasMinted s' to" and "contract_owner s' = contract_owner s"
  using assms
  by (auto simp: mintSocialProofPass_def Let_def split: if_splits sum.splits)

lemma mintSocialProofPass_uri_minted:
  assumes "mintSocialProofPass_uri render accepts msg_sender now to providers data s
             = Inr (tokenId, s')"
  shows "hasMinted s' to" and "contract_owner s' = contract_owner s"
  using assms
  by (auto simp: mintSocialProofPass_uri_def Let_def split: if_splits sum.splits)

lemma mintSocialProofPass_already:
  "hasMinted s to \<Longrightarrow> providers \<noteq> [] \<Longrightarrow>
   mintSocialProofPass accepts (contract_owner s) now to providers data s
     = Inl (Revert ''Already minted'')"
  by (simp add: mintSocialProofPass_def)

lemma mintSocialProofPass_uri_already:
  "hasMinted s to \<Longrightarrow> providers \<noteq> [] \<Longrightarrow>
   mintSocialProofPass_uri render accepts (contract_owner s) now to providers data s
     = Inl (Revert ''Already minted'')"
  by (simp add: mintSocialProofPass_uri_def)

lemma mintSocialProofPass_second_call:
  assumes "mintSocialProofPass accepts msg_sender now to providers data s = Inr (tokenId, s')"
  shows "hasAlreadyMinted s' to \<and> contract_owner s' = contract_owner s
       \<and> (\<forall>accepts' sender' now' providers' data'.
             \<exists>e. mintSocialProofPass accepts' sender' now' to providers' data' s' = Inl e)
       \<and> (\<forall>accepts' now' providers' data'. providers' \<noteq> [] \<longrightarrow>
             mintSocialProofPass accepts' (contract_owner s') now' to providers' data' s'
               = Inl (Revert ''Already minted''))"
proof -
  note m = mintSocialProofPass_minted [OF assms]
  have "\<exists>e. mintSocialProofPass accepts' sender' now' to providers' data' s' = Inl e"
    for accepts' sender' now' providers' data'
    using m(1) by (intro mintSocialProofPass_guards) simp
  moreover have "mintSocialProofPass accepts' (contract_owner s') now' to providers' data' s'
               = Inl (Revert ''Already minted'')" if "providers' \<noteq> []"
    for accepts' now' providers' data'
    using m(1) that by (rule mintSocialProofPass_already)
  ultimately show ?thesis
    using m by (simp add: hasAlreadyMinted_def)
qed

lemma mintSocialProofPass_uri_second_call:
  assumes "mintSocialProofPass_uri render accepts msg_sender now to providers data s
             = Inr (tokenId, s')"
  shows "hasAlreadyMinted s' to \<and> contract_owner s' = contract_owner s
       \<and> (\<forall>accepts' sender' now' providers' data'.
             \<exists>e. mintSocialProofPass_uri render accepts' sender' now' to providers' data' s'
                    = Inl e)
       \<and> (\<forall>accepts' now' providers' data'. providers' \<noteq> [] \<longrightarrow>
             mintSocialProofPass_uri render accepts' (contract_owner s') now' to providers'
               data' s' = Inl (Revert ''Already minted''))"
proof -
  note m = mintSocialProofPass_uri_minted [OF assms]
  have "\<exists>e. mintSocialProofPass_uri render accepts' sender' now' to providers' data' s' = Inl e"
    for accepts' sender' now' providers' data'
    using m(1) by (intro mintSocialProofPass_uri_guards) simp
  moreover have "mintSocialProofPass_uri render accepts' (contract_owner s') now' to providers'
               data' s' = Inl (Revert ''Already minted'')" if "providers' \<noteq> []"
    for accepts' now' providers' data'
    using m(1) that by (rule mintSocialProofPass_uri_already)
  ultimately show ?thesis
    using m by (simp add: hasAlreadyMinted_def)
qed

text \<open>
  C4, amended. In the two contracts that verify proofs on chain (those with
  \<open>hasAlreadyMinted\<close>), \<open>mintSocialProofPass\<close> reverts when the caller is not the
  owner, when \<open>providers\<close> is empty, when \<open>to\<close> is the zero address and when \<open>to\<close>
  has minted already. After a call that returns, \<open>hasAlreadyMinted(to)\<close> holds and
  every further \<open>mintSocialProofPass\<close> for the same \<open>to\<close> reverts, with
  \<open>Already minted\<close> when the owner calls it with a non-empty provider list.
\<close>

theorem mintSocialProofPass_once:
  assumes "mint = mintSocialProofPass \<or> mint = mintSocialProofPass_uri render"
  shows "(msg_sender \<noteq> contract_owner s \<or> providers = [] \<or> to = 0 \<or> hasMinted s to \<longrightarrow>
            (\<exists>e. mint accepts msg_sender now to providers data s = Inl e))
       \<and> (\<forall>tokenId s'. mint accepts msg_sender now to providers data s = Inr (tokenId, s') \<longrightarrow>
             hasAlreadyMinted s' to
           \<and> contract_owner s' = contract_owner s
           \<and> (\<forall>accepts' sender' now' providers' data'.
                 \<exists>e. mint accepts' sender' now' to providers' data' s' = Inl e)
           \<and> (\<forall>accepts' now' providers' data'. providers' \<noteq> [] \<longrightarrow>
                 mint accepts' (contract_owner s') now' to providers' data' s'
                   = Inl (Revert ''Already minted'')))"
  using assms
proof
  assume m: "mint = mintSocialProofPass"
  show ?thesis
    unfolding m
    by (intro conjI allI impI mintSocialProofPass_guards mintSocialProofPass_second_call)
next
  assume m: "mint = mintSocialProofPass_uri render"
  show ?thesis
    unfolding m
    by (intro conjI allI impI mintSocialProofPass_uri_guards
        mintSocialProofPass_uri_second_call)
qed

lemma minted_once_call:
  "\<exists>s'. mintSocialProofPass demo_accepts 1 100 2 [''github''] [] (deploy 1) = Inr (0, s')"
  by (simp add: mintSocialProofPass_def safeMint_def exists_token_def deploy_fields
      demo_accepts_def Let_def)

lemma minted_once_eq:
  "mintSocialProofPass demo_accepts 1 100 2 [''github''] [] (deploy 1) = Inr (0, minted_once)"
proof -
  from minted_once_call obtain s' where
    eq: "mintSocialProofPass demo_accepts 1 100 2 [''github''] [] (deploy 1) = Inr (0, s')"
    by blast
  then have "minted_once = s'" by (simp add: minted_once_def transact_def)
  with eq show ?thesis by simp
qed

theorem mintSocialProofPass_once_witness:
  "mintSocialProofPass demo_accepts 1 100 2 [''github''] [] (deploy 1) = Inr (0, minted_once)
   \<and> hasAlreadyMinted minted_once 2
   \<and> mintSocialProofPass demo_accepts 1 200 2 [''github'', ''gmail''] [] minted_once
       = Inl (Revert ''Already minted'')
   \<and> (\<exists>e. mintSocialProofPass demo_accepts 1 100 0 [''github''] [] (deploy 1) = Inl e)
   \<and> (\<exists>e. mintSocialProofPass demo_accepts 1 100 2 [] [] (deploy 1) = Inl e)
   \<and> (\<exists>e. mintSocialProofPass demo_accepts 9 100 2 [''github''] [] (deploy 1) = Inl e)"
proof -
  note first = minted_once_eq
  note t = mintSocialProofPass_once [where mint = mintSocialProofPass and s = "deploy 1"
      and accepts = demo_accepts and now = 100 and data = "[]", OF disjI1 [OF refl]]
  note after = t [where msg_sender = 1 and providers = "[''github'']" and to = 2,
      THEN conjunct2, THEN spec, THEN spec, THEN mp, OF first]
  from after have m: "hasAlreadyMinted minted_once 2" by (rule conjunct1)
  from after have o: "contract_owner minted_once = 1" by (simp add: deploy_fields)
  from after [THEN conjunct2, THEN conjunct2, THEN conjunct2, THEN spec, THEN spec,
      THEN spec, THEN spec, THEN mp, of "[''github'', ''gmail'']" demo_accepts 200 "[]"] o
  have second: "mintSocialProofPass demo_accepts 1 200 2 [''github'', ''gmail''] [] minted_once
       = Inl (Revert ''Already minted'')" by simp
  from t [where msg_sender = 1 and providers = "[''github'']" and to = 0, THEN conjunct1]
  have z: "\<exists>e. mintSocialProofPass demo_accepts 1 100 0 [''github''] [] (deploy 1) = Inl e"
    by simp
  from t [where msg_sender = 1 and providers = "[]" and to = 2, THEN conjunct1]
  have e: "\<exists>e. mintSocialProofPass demo_accepts 1 100 2 [] [] (deploy 1) = Inl e"
    by simp
  from t [where msg_sender = 9 and providers = "[''github'']" and to = 2, THEN conjunct1]
  have n: "\<exists>e. mintSocialProofPass demo_accepts 9 100 2 [''github''] [] (deploy 1) = Inl e"
    by (simp add: deploy_fields)
  from first m second z e n show ?thesis by (intro conjI)
qed


subsection \<open>The first contract\<close>

text \<open>
  The first contract checks the owner, the provider list and the zero address, and
  has no check of \<open>hasMinted\<close>.
\<close>

lemma mintSocialProofPass_v1_guards:
  assumes "msg_sender \<noteq> owner_v1 s \<or> providers = [] \<or> to = 0"
  shows "\<exists>e. mintSocialProofPass_v1 render accepts msg_sender now to providers data s = Inl e"
  using assms by (auto simp: mintSocialProofPass_v1_def)

lemma deploy_v1_fields:
  "owner_v1 (deploy_v1 a) = a" "tokenIdCounter_v1 (deploy_v1 a) = 0"
  "hasMinted_v1 (deploy_v1 a) u = False"
  "holderTokens_v1 (deploy_v1 a) u = []"
  "owners (token_v1 (deploy_v1 a)) t = 0" "events_v1 (deploy_v1 a) = []"
  by (simp_all add: deploy_v1_def)

lemma minted_once_v1_call:
  "\<exists>s'. mintSocialProofPass_v1 demo_render_v1 demo_accepts 1 100 2 [''github''] []
           (deploy_v1 1) = Inr (0, s')
        \<and> owner_v1 s' = 1 \<and> tokenIdCounter_v1 s' = 1 \<and> hasMinted_v1 s' 2
        \<and> owners (token_v1 s') 1 = 0"
  by (simp add: mintSocialProofPass_v1_def safeMint_def setTokenURI_def generateTokenURI_v1_def
      exists_token_def deploy_v1_fields demo_accepts_def Let_def)

lemma minted_once_v1_fields:
  "mintSocialProofPass_v1 demo_render_v1 demo_accepts 1 100 2 [''github''] [] (deploy_v1 1)
     = Inr (0, minted_once_v1)"
  "owner_v1 minted_once_v1 = 1" "tokenIdCounter_v1 minted_once_v1 = 1"
  "hasMinted_v1 minted_once_v1 2" "owners (token_v1 minted_once_v1) 1 = 0"
proof -
  from minted_once_v1_call obtain s' where
    eq: "mintSocialProofPass_v1 demo_render_v1 demo_accepts 1 100 2 [''github''] []
           (deploy_v1 1) = Inr (0, s')"
    and f: "owner_v1 s' = 1" "tokenIdCounter_v1 s' = 1" "hasMinted_v1 s' 2"
      "owners (token_v1 s') 1 = 0"
    by blast
  from eq have m: "minted_once_v1 = s'" by (simp add: minted_once_v1_def transact_def)
  from eq f show
    "mintSocialProofPass_v1 demo_render_v1 demo_accepts 1 100 2 [''github''] [] (deploy_v1 1)
       = Inr (0, minted_once_v1)"
    "owner_v1 minted_once_v1 = 1" "tokenIdCounter_v1 minted_once_v1 = 1"
    "hasMinted_v1 minted_once_v1 2" "owners (token_v1 minted_once_v1) 1 = 0"
    unfolding m by simp_all
qed

text \<open>
  C4, as stated, fails on the first contract: after its owner has minted for address 2
  (token 0, \<open>hasMinted\<close> set), a second \<open>mintSocialProofPass\<close> for address 2 returns
  token 1.
\<close>

theorem mintSocialProofPass_v1_mints_twice:
  "fst (transact (mintSocialProofPass_v1 demo_render_v1 demo_accepts 1 100 2 [''github''] [])
          (deploy_v1 1)) = Inr 0
   \<and> hasMinted_v1 minted_once_v1 2
   \<and> fst (transact (mintSocialProofPass_v1 demo_render_v1 demo_accepts 1 200 2 [''github''] [])
          minted_once_v1) = Inr 1"
  by (simp add: transact_def minted_once_v1_fields deploy_v1_fields mintSocialProofPass_v1_def
      safeMint_def setTokenURI_def generateTokenURI_v1_def exists_token_def demo_accepts_def
      Let_def)

subsection \<open>The verification count\<close>

text \<open>
  The stored count is the length of the stored provider list cut to eight bits: the
  two agree while the list has fewer than 256 entries.
\<close>

lemma mintSocialProofPass_count:
  assumes "mintSocialProofPass accepts msg_sender now to providers data s = Inr (tokenId, s')"
  shows "verifiedProviders (socialProofs s' tokenId) = providers"
    and "unat (verificationCount (socialProofs s' tokenId)) = length providers mod 256"
  using assms
  by (auto simp: mintSocialProofPass_def Let_def unat_of_nat split: if_splits sum.splits)

lemma push_all: "foldl (\<lambda>vs p. vs @ [p]) xs ys = xs @ ys"
  by (induction ys arbitrary: xs) auto

lemma addProvidersWithVerification_count:
  assumes "addProvidersWithVerification reclaim msg_sender now tokenId newProofs newProviders s
             = Inr ((), s')"
  shows "verifiedProviders (socialProofs s' tokenId)
           = verifiedProviders (socialProofs s tokenId) @ newProviders"
    and "unat (verificationCount (socialProofs s' tokenId))
           = length (verifiedProviders (socialProofs s' tokenId)) mod 256"
  using assms
  by (auto simp: addProvidersWithVerification_def Let_def unat_of_nat push_all
      simp del: length_append of_nat_add split: if_splits sum.splits)

lemma mintWithProofVerification_count:
  assumes "mintWithProofVerification accepts reclaim msg_sender now proofs providers s
             = Inr (tokenId, s')"
  shows "verifiedProviders (socialProofs s' tokenId) = providers"
    and "unat (verificationCount (socialProofs s' tokenId)) = length providers mod 256"
  using assms
  by (auto simp: mintWithProofVerification_def Let_def unat_of_nat split: if_splits sum.splits)

lemma addVerifiedProviders_v1_count:
  assumes "addVerifiedProviders_v1 render msg_sender now tokenId newProviders newProofData s
             = Inr ((), s')"
  shows "verifiedProviders_v1 (socialProofs_v1 s' tokenId)
           = verifiedProviders_v1 (socialProofs_v1 s tokenId) @ newProviders"
    and "unat (verificationCount_v1 (socialProofs_v1 s' tokenId))
           = length (verifiedProviders_v1 (socialProofs_v1 s' tokenId)) mod 256"
  using assms
  by (auto simp: addVerifiedProviders_v1_def generateTokenURI_v1_def setTokenURI_def Let_def
      unat_of_nat push_all simp del: length_append of_nat_add split: if_splits sum.splits)

lemma count_is_length_below_256:
  assumes "unat (c :: uint8) = length (ps :: string list) mod 256" and "length ps < 256"
  shows "unat c = length ps"
  using assms by simp

text \<open>
  C2. A mint by the owner with 256 providers returns token 0 and stores a provider list
  of length 256 with a verification count of 0.
\<close>

theorem verificationCount_wraps:
  "fst (transact (mintSocialProofPass demo_accepts 1 100 2 (replicate 256 ''github'') [])
          (deploy 1)) = Inr 0
   \<and> length (verifiedProviders (socialProofs
        (snd (transact (mintSocialProofPass demo_accepts 1 100 2 (replicate 256 ''github'') [])
          (deploy 1))) 0)) = 256
   \<and> verificationCount (socialProofs
        (snd (transact (mintSocialProofPass demo_accepts 1 100 2 (replicate 256 ''github'') [])
          (deploy 1))) 0) = 0"
  by (simp add: transact_def mintSocialProofPass_def safeMint_def exists_token_def
      deploy_fields demo_accepts_def Let_def)

end
